theory Spec2Isabelle
  imports Complex_Main "HOL-Library.Sublist"
begin

section \<open>Values of the two runtimes\<close>

text \<open>
  Script numbers and host floating values are IEEE doubles. A finite one is modelled by
  the rational it denotes; the three special values are constructors of their own.
\<close>

datatype pyfloat = Finite rat | PosInf | NegInf | NaN

type_synonym ref = nat

text \<open>
  A \<open>QJSValue\<close>. Arrays and objects (functions are objects) are references into the
  engine's heap. An error value carries its \<open>name\<close>, \<open>message\<close> and \<open>stack\<close>
  properties and, when the \<open>oldTraceback\<close> property is an array, that array's
  reference and elements; \<open>None\<close> is an undefined \<open>oldTraceback\<close>.
\<close>

datatype jsval =
    JSUndefined
  | JSNull
  | JSNumber pyfloat
  | JSBool bool
  | JSString string
  | JSDate string
  | JSRegExp string bool
  | JSArray ref
  | JSError string string string "(ref \<times> jsval list) option"
  | JSObject ref

text \<open>
  An exception class: an identity (0 for the classes of the \<open>exceptions\<close> module), its
  \<open>__name__\<close>, the names of its base classes, and whether its constructor accepts a
  single message argument.
\<close>

datatype exc_class = ExcClass (cid: nat) (cname: string) (ancestors: "string list") (takes_message: bool)

text \<open>
  Host values. \<open>PyObject\<close> is an instance of a user-defined class: its type name, the
  identity under which it is callable (if it is), the items it yields as a
  \<open>collections.Sequence\<close> (if it is one) and as a \<open>collections.Mapping\<close> (if it is one).
  An exception instance has its class, \<open>message\<close>, the \<open>name\<close> attribute (only
  \<open>JSError\<close> sets it), the \<open>oldTraceback\<close> attribute and the frames of its own
  traceback, innermost last.
\<close>

datatype pyval =
    PyNone
  | PyInt int
  | PyFloat pyfloat
  | PyBool bool
  | PyStr string
  | PyDateTime string
  | PyRegex string bool
  | PyArrayProxy ref
  | PyObjectProxy ref "jsval option"
  | PyList "pyval list"
  | PyDict "(string \<times> pyval) list"
  | PyCallable nat
  | PyObject string "nat option" "pyval list option" "(string \<times> pyval) list option"
  | PyException pyexc
and pyexc =
    Exc (exc_class: exc_class) (exc_message: string) (exc_name: "string option")
        (exc_oldTraceback: "pyval list option") (exc_tb: "pyval list")

subsection \<open>Built-in exception classes\<close>

definition builtin :: "string \<Rightarrow> string list \<Rightarrow> exc_class" where
  "builtin n bases = ExcClass 0 n bases True"

definition IndexError :: exc_class where
  "IndexError = builtin ''IndexError'' [''LookupError'', ''StandardError'', ''Exception'', ''BaseException'']"

definition KeyError :: exc_class where
  "KeyError = builtin ''KeyError'' [''LookupError'', ''StandardError'', ''Exception'', ''BaseException'']"

definition AttributeError :: exc_class where
  "AttributeError = builtin ''AttributeError'' [''StandardError'', ''Exception'', ''BaseException'']"

definition TypeError :: exc_class where
  "TypeError = builtin ''TypeError'' [''StandardError'', ''Exception'', ''BaseException'']"

definition ValueError :: exc_class where
  "ValueError = builtin ''ValueError'' [''StandardError'', ''Exception'', ''BaseException'']"

definition OverflowError :: exc_class where
  "OverflowError = builtin ''OverflowError'' [''ArithmeticError'', ''StandardError'', ''Exception'', ''BaseException'']"

definition RuntimeError :: exc_class where
  "RuntimeError = builtin ''RuntimeError'' [''StandardError'', ''Exception'', ''BaseException'']"

text \<open>\<open>JSError\<close> of pyproxies.py: a subclass of \<open>Exception\<close> whose constructor takes two arguments.\<close>

definition JSErrorClass :: exc_class where
  "JSErrorClass = ExcClass 1 ''JSError'' [''Exception'', ''BaseException''] False"

definition mk_exc :: "exc_class \<Rightarrow> string \<Rightarrow> pyexc" where
  "mk_exc c m = Exc c m None None []"

definition JSError_init :: "string \<Rightarrow> string \<Rightarrow> pyexc" where
  "JSError_init name message = Exc JSErrorClass message (Some name) None []"

text \<open>\<open>isinstance(e, C)\<close> for a class \<open>C\<close>: the class itself or one of its subclasses.\<close>

definition isinstance :: "pyexc \<Rightarrow> exc_class \<Rightarrow> bool" where
  "isinstance e c = (exc_class e = c \<or> cname c \<in> set (ancestors (exc_class e)))"

section \<open>Decimal text\<close>

definition digit_char :: "nat \<Rightarrow> char" where
  "digit_char d = char_of (48 + d)"

function str_nat :: "nat \<Rightarrow> string" where
  "str_nat n = (if n < 10 then [digit_char n] else str_nat (n div 10) @ [digit_char (n mod 10)])"
  by pat_completeness auto
termination
  by (relation "measure id") auto

declare str_nat.simps [simp del]

definition str_int :: "int \<Rightarrow> string" where
  "str_int i = (if i < 0 then CHR ''-'' # str_nat (nat (- i)) else str_nat (nat i))"

definition is_digit :: "char \<Rightarrow> bool" where
  "is_digit c = ((48 :: nat) \<le> of_char c \<and> (of_char c :: nat) \<le> 57)"

definition digit_val :: "char \<Rightarrow> nat" where
  "digit_val c = of_char c - 48"

definition nat_of_digits :: "string \<Rightarrow> nat" where
  "nat_of_digits s = foldl (\<lambda>acc c. 10 * acc + digit_val c) 0 s"

section \<open>The engine's heap\<close>

text \<open>
  An array cell holds its elements. An object cell holds its own properties, in the
  order the engine iterates them, and the references of its prototype chain, nearest
  first. A function cell is a wrapper made by the bootstrap script's \<open>newWrapper\<close> for
  one identifier.
\<close>

datatype cell =
    ArrayCell "jsval list"
  | ObjectCell "(string \<times> jsval) list" "ref list"
  | WrapperCell string

type_synonym heap = "ref \<Rightarrow> cell option"

section \<open>Host string and list primitives\<close>

text \<open>\<open>s.split(sep)\<close> for a one-character separator: never empty.\<close>

fun split_on :: "char \<Rightarrow> string \<Rightarrow> string list" where
  "split_on sep [] = [[]]"
| "split_on sep (c # cs) =
     (if c = sep then [] # split_on sep cs
      else (case split_on sep cs of
              [] \<Rightarrow> [[c]]
            | w # ws \<Rightarrow> (c # w) # ws))"

text \<open>\<open>xs[i]\<close>: a negative index counts from the end, out of range raises IndexError.\<close>

definition py_index :: "'a list \<Rightarrow> int \<Rightarrow> pyexc + 'a" where
  "py_index xs i =
     (if 0 \<le> i \<and> i < int (length xs) then Inr (xs ! nat i)
      else if i < 0 \<and> - int (length xs) \<le> i then Inr (xs ! nat (int (length xs) + i))
      else Inl (mk_exc IndexError ''list index out of range''))"

text \<open>\<open>int(num)\<close> on a float: truncation towards zero; NaN and the infinities raise.\<close>

definition py_int :: "pyfloat \<Rightarrow> pyexc + int" where
  "py_int num =
     (case num of
        Finite q \<Rightarrow> Inr (if 0 \<le> q then \<lfloor>q\<rfloor> else \<lceil>q\<rceil>)
      | NaN \<Rightarrow> Inl (mk_exc ValueError ''cannot convert float NaN to integer'')
      | _ \<Rightarrow> Inl (mk_exc OverflowError ''cannot convert float infinity to integer''))"

text \<open>\<open>num == asInt\<close> between a float and an integer: exact, and false for NaN.\<close>

definition float_eq_int :: "pyfloat \<Rightarrow> int \<Rightarrow> bool" where
  "float_eq_int num i = (case num of Finite q \<Rightarrow> q = of_int i | _ \<Rightarrow> False)"

section \<open>The evaluator: decoding script values\<close>

definition INIT_SCRIPT_NAME :: string where
  "INIT_SCRIPT_NAME = ''_js_eval_init.js''"

text \<open>\<open>JSEvaluator.buildNumber\<close>.\<close>

definition buildNumber :: "pyfloat \<Rightarrow> pyval" where
  "buildNumber num =
     (case py_int num of
        Inl e \<Rightarrow> PyFloat num
      | Inr asInt \<Rightarrow> if float_eq_int num asInt then PyInt asInt else PyFloat num)"

text \<open>
  \<open>JS_STACK_RE.match(item)\<close> for
  \<open>(?P<func>[^@]*)@(?P<path>[^:]*):(?P<line>[0-9]*)\<close>: the function is the text before
  the first \<open>@\<close>, the path the text from there to the next colon, the line the digits
  that follow (possibly none). \<open>None\<close> when there is no match.
\<close>

definition JS_STACK_RE_match :: "string \<Rightarrow> (string \<times> string \<times> string) option" where
  "JS_STACK_RE_match item =
     (let func = takeWhile (\<lambda>c. c \<noteq> CHR ''@'') item;
          rest = dropWhile (\<lambda>c. c \<noteq> CHR ''@'') item
      in case rest of
           [] \<Rightarrow> None
         | _ # after_at \<Rightarrow>
             (let path = takeWhile (\<lambda>c. c \<noteq> CHR '':'') after_at;
                  rest2 = dropWhile (\<lambda>c. c \<noteq> CHR '':'') after_at
              in case rest2 of
                   [] \<Rightarrow> None
                 | _ # after_colon \<Rightarrow> Some (func, path, takeWhile is_digit after_colon)))"

text \<open>One pass of the loop body of \<open>buildPyError\<close>: a stack line to \<open>[path, line, func, code]\<close>.\<close>

definition stack_item :: "(string \<Rightarrow> string option) \<Rightarrow> string \<Rightarrow> pyexc + pyval" where
  "stack_item codeStore item =
     (case JS_STACK_RE_match item of
        None \<Rightarrow> Inl (mk_exc AttributeError ''NoneType object has no attribute group'')
      | Some (func0, path, digits) \<Rightarrow>
          (let func = (if func0 = ''%entry'' then ''<global scope>'' else func0)
           in if digits = [] then Inl (mk_exc ValueError ''invalid literal for int()'')
              else (let line = int (nat_of_digits digits)
                    in case codeStore path of
                         None \<Rightarrow> Inl (mk_exc KeyError path)
                       | Some src \<Rightarrow>
                           (case py_index (split_on CHR 0x0A src) (line - 1) of
                              Inl e \<Rightarrow> Inl e
                            | Inr code \<Rightarrow> Inr (PyList [PyStr path, PyInt line, PyStr func, PyStr code])))))"

text \<open>The loop of \<open>buildPyError\<close>: every item is inserted at the front of \<open>stackInfo\<close>.\<close>

fun stack_loop :: "(string \<Rightarrow> string option) \<Rightarrow> string list \<Rightarrow> pyval list \<Rightarrow> pyexc + pyval list" where
  "stack_loop codeStore [] stackInfo = Inr stackInfo"
| "stack_loop codeStore (item # items) stackInfo =
     (case stack_item codeStore item of
        Inl e \<Rightarrow> Inl e
      | Inr fr \<Rightarrow> stack_loop codeStore items (fr # stackInfo))"

definition relevant_stack :: "string \<Rightarrow> string list" where
  "relevant_stack stack_text =
     (let stack = split_on CHR 0x0A stack_text;
          stack1 = (if sublist INIT_SCRIPT_NAME (hd stack) then tl stack else stack)
      in takeWhile (\<lambda>x. \<not> sublist INIT_SCRIPT_NAME x) stack1)"

text \<open>
  \<open>pythonExceptionStore[name](message)\<close> with its \<open>except KeyError\<close>: a constructor that
  does not take a single message raises TypeError, which is not caught.
\<close>

definition reconstruct :: "(string \<Rightarrow> exc_class option) \<Rightarrow> string \<Rightarrow> string \<Rightarrow> pyexc + pyexc" where
  "reconstruct pythonExceptionStore name message =
     (case pythonExceptionStore name of
        None \<Rightarrow> Inr (JSError_init name message)
      | Some c \<Rightarrow>
          if takes_message c then Inr (mk_exc c message)
          else Inl (mk_exc TypeError ''__init__() takes a different number of arguments''))"

text \<open>
  \<open>JSEvaluator.buildPyError\<close>. Its last step decodes the \<open>oldTraceback\<close> property
  with \<open>toPy\<close>; the outcome of that decoding is the argument \<open>old\<close>, looked at only
  after the stack has been parsed and the exception object built, as in the source.
\<close>

definition buildPyError :: "(string \<Rightarrow> exc_class option) \<Rightarrow> (string \<Rightarrow> string option) \<Rightarrow> string \<Rightarrow> string \<Rightarrow> string \<Rightarrow> (pyexc + pyval list) \<Rightarrow> pyexc + pyexc" where
  "buildPyError pythonExceptionStore codeStore name message stack old =
     (case stack_loop codeStore (relevant_stack stack) [] of
        Inl e \<Rightarrow> Inl e
      | Inr stackInfo \<Rightarrow>
          (case reconstruct pythonExceptionStore name message of
             Inl e \<Rightarrow> Inl e
           | Inr err \<Rightarrow>
               (case old of
                  Inl e \<Rightarrow> Inl e
                | Inr oldTraceback \<Rightarrow>
                    Inr (Exc (exc_class err) (exc_message err) (exc_name err)
                           (Some (stackInfo @ oldTraceback)) (exc_tb err)))))"

text \<open>
  \<open>JSEvaluator.toPy\<close>. \<open>toPy_items\<close> is \<open>list(oldTraceback)\<close>: iterating the array
  proxy decodes every element with the array as instance; an undefined or empty
  \<open>oldTraceback\<close> gives \<open>[]\<close>.
\<close>

fun toPy :: "(string \<Rightarrow> exc_class option) \<Rightarrow> (string \<Rightarrow> string option) \<Rightarrow> jsval \<Rightarrow> jsval option \<Rightarrow> pyexc + pyval"
and toPy_items :: "(string \<Rightarrow> exc_class option) \<Rightarrow> (string \<Rightarrow> string option) \<Rightarrow> ref \<Rightarrow> jsval list \<Rightarrow> pyexc + pyval list"
where
  "toPy st cs JSNull inst = Inr PyNone"
| "toPy st cs JSUndefined inst = Inr PyNone"
| "toPy st cs (JSNumber num) inst = Inr (buildNumber num)"
| "toPy st cs (JSBool b) inst = Inr (PyBool b)"
| "toPy st cs (JSString s) inst = Inr (PyStr s)"
| "toPy st cs (JSDate d) inst = Inr (PyDateTime d)"
| "toPy st cs (JSRegExp p ci) inst = Inr (PyRegex p ci)"
| "toPy st cs (JSArray r) inst = Inr (PyArrayProxy r)"
| "toPy st cs (JSError name message stack None) inst =
     (case buildPyError st cs name message stack (Inr []) of
        Inl e \<Rightarrow> Inl e
      | Inr err \<Rightarrow> Inr (PyException err))"
| "toPy st cs (JSError name message stack (Some (r, elems))) inst =
     (case buildPyError st cs name message stack (toPy_items st cs r elems) of
        Inl e \<Rightarrow> Inl e
      | Inr err \<Rightarrow> Inr (PyException err))"
| "toPy st cs (JSObject r) inst = Inr (PyObjectProxy r inst)"
| "toPy_items st cs r [] = Inr []"
| "toPy_items st cs r (x # xs) =
     (case toPy st cs x (Some (JSArray r)) of
        Inl e \<Rightarrow> Inl e
      | Inr v \<Rightarrow>
          (case toPy_items st cs r xs of
             Inl e \<Rightarrow> Inl e
           | Inr vs \<Rightarrow> Inr (v # vs)))"

section \<open>Array proxies\<close>

text \<open>\<open>self.val.property(idx)\<close> on an array: the element, or undefined where there is none.\<close>

definition array_property :: "heap \<Rightarrow> ref \<Rightarrow> int \<Rightarrow> jsval" where
  "array_property h r idx =
     (case h r of
        Some (ArrayCell xs) \<Rightarrow> if 0 \<le> idx \<and> idx < int (length xs) then xs ! nat idx else JSUndefined
      | _ \<Rightarrow> JSUndefined)"

text \<open>\<open>JSArray.__len__\<close>: \<open>self.val.property('length').toInt()\<close>.\<close>

definition JSArray_len :: "heap \<Rightarrow> ref \<Rightarrow> int" where
  "JSArray_len h r = (case h r of Some (ArrayCell xs) \<Rightarrow> int (length xs) | _ \<Rightarrow> 0)"

text \<open>\<open>JSArray._normalize\<close>; \<open>NotFound\<close> is IndexError, raised with the normalised index.\<close>

definition JSArray_normalize :: "heap \<Rightarrow> ref \<Rightarrow> int \<Rightarrow> pyexc + int" where
  "JSArray_normalize h r idx0 =
     (let idx = (if idx0 < 0 then JSArray_len h r + idx0 else idx0)
      in if \<not> (0 \<le> idx \<and> idx < JSArray_len h r) then Inl (mk_exc IndexError (str_int idx))
         else Inr idx)"

text \<open>\<open>JSValue._get\<close> on an array proxy: \<open>self.js.toPy(self.val.property(key), self.val)\<close>.\<close>

definition JSArray_get :: "(string \<Rightarrow> exc_class option) \<Rightarrow> (string \<Rightarrow> string option) \<Rightarrow> heap \<Rightarrow> ref \<Rightarrow> int \<Rightarrow> pyexc + pyval" where
  "JSArray_get st cs h r key = toPy st cs (array_property h r key) (Some (JSArray r))"

text \<open>\<open>JSArray.__getitem__\<close>.\<close>

definition JSArray_getitem :: "(string \<Rightarrow> exc_class option) \<Rightarrow> (string \<Rightarrow> string option) \<Rightarrow> heap \<Rightarrow> ref \<Rightarrow> int \<Rightarrow> pyexc + pyval" where
  "JSArray_getitem st cs h r idx =
     (case JSArray_normalize h r idx of
        Inl e \<Rightarrow> Inl e
      | Inr j \<Rightarrow> JSArray_get st cs h r j)"


section \<open>Object proxies\<close>

definition own_props :: "heap \<Rightarrow> ref \<Rightarrow> (string \<times> jsval) list" where
  "own_props h r = (case h r of Some (ObjectCell props protos) \<Rightarrow> props | _ \<Rightarrow> [])"

definition proto_chain :: "heap \<Rightarrow> ref \<Rightarrow> ref list" where
  "proto_chain h r = (case h r of Some (ObjectCell props protos) \<Rightarrow> protos | _ \<Rightarrow> [])"

text \<open>\<open>QJSValue.hasOwnProperty\<close>: an own, not prototype-inherited, property.\<close>

definition hasOwnProperty :: "heap \<Rightarrow> ref \<Rightarrow> string \<Rightarrow> bool" where
  "hasOwnProperty h r key = (map_of (own_props h r) key \<noteq> None)"

text \<open>\<open>QJSValue.hasProperty\<close>: own, or found along the prototype chain.\<close>

definition hasProperty :: "heap \<Rightarrow> ref \<Rightarrow> string \<Rightarrow> bool" where
  "hasProperty h r key = list_ex (\<lambda>o'. hasOwnProperty h o' key) (r # proto_chain h r)"

text \<open>\<open>QJSValue.property\<close>: the nearest holder's value, undefined when there is none.\<close>

definition object_property :: "heap \<Rightarrow> ref \<Rightarrow> string \<Rightarrow> jsval" where
  "object_property h r key =
     (case List.find (\<lambda>o'. hasOwnProperty h o' key) (r # proto_chain h r) of
        None \<Rightarrow> JSUndefined
      | Some o' \<Rightarrow> the (map_of (own_props h o') key))"


text \<open>\<open>JSValue._get\<close> on an object proxy.\<close>

definition JSObject_get :: "(string \<Rightarrow> exc_class option) \<Rightarrow> (string \<Rightarrow> string option) \<Rightarrow> heap \<Rightarrow> ref \<Rightarrow> string \<Rightarrow> pyexc + pyval" where
  "JSObject_get st cs h r key = toPy st cs (object_property h r key) (Some (JSObject r))"

text \<open>\<open>JSObject.__getitem__\<close>; \<open>NotFound\<close> is KeyError.\<close>

definition JSObject_getitem :: "(string \<Rightarrow> exc_class option) \<Rightarrow> (string \<Rightarrow> string option) \<Rightarrow> heap \<Rightarrow> ref \<Rightarrow> string \<Rightarrow> pyexc + pyval" where
  "JSObject_getitem st cs h r key =
     (if hasProperty h r key then JSObject_get st cs h r key
      else Inl (mk_exc KeyError key))"


section \<open>The evaluator's state\<close>

text \<open>
  The state a \<open>JSEvaluator\<close> works on: the engine's heap with its next free reference,
  \<open>self.codeStore\<close>, the next value of \<open>self.counter\<close>, \<open>self.callback.funcs\<close>
  (identifier to the identity of the registered callable), the \<open>cache\<close> object of the
  bootstrap script's closure, the module-level \<open>pythonExceptionStore\<close>, and the
  engine's conversion of a host integer to a script number.
\<close>

record evaluator =
  heap :: heap
  next_ref :: ref
  codeStore :: "string \<Rightarrow> string option"
  counter :: nat
  funcs :: "string \<Rightarrow> nat option"
  cache :: "string \<Rightarrow> ref option"
  pythonExceptionStore :: "string \<Rightarrow> exc_class option"
  engine_number :: "int \<Rightarrow> pyfloat"

text \<open>\<open>JSEvaluator.throwIfNecessary\<close>.\<close>

definition throwIfNecessary :: "pyval \<Rightarrow> pyexc + pyval" where
  "throwIfNecessary v = (case v of PyException e \<Rightarrow> Inl e | _ \<Rightarrow> Inr v)"

text \<open>
  \<open>JSEvaluator.eval\<close>. What the engine does with the source text
  (\<open>self.engine.evaluate(code, path, line)\<close>) is the argument \<open>evaluate\<close>: it runs on
  the state as \<open>eval\<close> has left it and returns the script value and the state afterwards.
  \<open>not path\<close> holds for \<open>None\<close> and for the empty string.
\<close>

definition eval_path :: "string option \<Rightarrow> evaluator \<Rightarrow> string \<times> evaluator" where
  "eval_path path s =
     (if path = None \<or> path = Some []
      then (''<JS string '' @ str_nat (counter s) @ ''>'', s\<lparr>counter := Suc (counter s)\<rparr>)
      else (the path, s))"

definition eval :: "(string \<Rightarrow> string \<Rightarrow> int \<Rightarrow> evaluator \<Rightarrow> jsval \<times> evaluator) \<Rightarrow> string \<Rightarrow> string option \<Rightarrow> int \<Rightarrow> evaluator \<Rightarrow> (pyexc + pyval) \<times> evaluator" where
  "eval evaluate code path0 line s =
     (let (path, s1) = eval_path path0 s;
          s2 = s1\<lparr>codeStore := (codeStore s1)(path \<mapsto> code)\<rparr>;
          (result, s3) = evaluate code path line s2
      in (case toPy (pythonExceptionStore s3) (codeStore s3) result None of
            Inl e \<Rightarrow> Inl e
          | Inr v \<Rightarrow> throwIfNecessary v, s3))"

text \<open>
  The bootstrap script's \<open>exports.buildJSWrapper\<close>: \<open>newWrapper(id)\<close> makes a new
  function object, kept in \<open>cache\<close> under the identifier; a cached function is truthy.
\<close>

definition buildJSWrapper :: "string \<Rightarrow> evaluator \<Rightarrow> jsval \<times> evaluator" where
  "buildJSWrapper ident s =
     (case cache s ident of
        Some r \<Rightarrow> (JSObject r, s)
      | None \<Rightarrow>
          (let r = next_ref s
           in (JSObject r,
               s\<lparr>heap := (heap s)(r \<mapsto> WrapperCell ident),
                  next_ref := Suc r,
                  cache := (cache s)(ident \<mapsto> r)\<rparr>)))"

text \<open>The \<open>val\<close> attribute of a decoded value: only proxies have one.\<close>

definition proxy_val :: "pyval \<Rightarrow> pyexc + jsval" where
  "proxy_val v =
     (case v of
        PyArrayProxy r \<Rightarrow> Inr (JSArray r)
      | PyObjectProxy r inst \<Rightarrow> Inr (JSObject r)
      | _ \<Rightarrow> Inl (mk_exc AttributeError ''object has no attribute val''))"

text \<open>
  \<open>JSEvaluator.wrapFunction\<close>, for the callable of identity \<open>fid\<close> (its \<open>id(func)\<close>).
  The engine evaluates the call of the bootstrap script's factory.
\<close>

definition wrapFunction :: "nat \<Rightarrow> evaluator \<Rightarrow> (pyexc + jsval) \<times> evaluator" where
  "wrapFunction fid s =
     (let identifier = str_nat fid;
          s1 = s\<lparr>funcs := (funcs s)(identifier \<mapsto> fid)\<rparr>;
          (res, s2) = eval (\<lambda>code path line. buildJSWrapper identifier)
                        (''_callback.buildJSWrapper('' @ [CHR 0x27] @ identifier @ [CHR 0x27] @ '')'')
                        None 1 s1
      in (case res of Inl e \<Rightarrow> Inl e | Inr v \<Rightarrow> proxy_val v, s2))"

section \<open>Encoding host values\<close>

text \<open>\<open>self.engine.newArray()\<close> and \<open>self.engine.newObject()\<close>.\<close>

definition newArray :: "evaluator \<Rightarrow> ref \<times> evaluator" where
  "newArray s = (next_ref s, s\<lparr>heap := (heap s)(next_ref s \<mapsto> ArrayCell []), next_ref := Suc (next_ref s)\<rparr>)"

definition newObject :: "evaluator \<Rightarrow> ref \<times> evaluator" where
  "newObject s = (next_ref s, s\<lparr>heap := (heap s)(next_ref s \<mapsto> ObjectCell [] []), next_ref := Suc (next_ref s)\<rparr>)"

text \<open>
  \<open>JSArray._splice([idx, 0, item])\<close>: the array's \<open>splice\<close> inserting one item; a start
  beyond the length is the length, a negative one counts from the end.
\<close>

definition splice_insert :: "heap \<Rightarrow> ref \<Rightarrow> int \<Rightarrow> jsval \<Rightarrow> heap" where
  "splice_insert h r idx item =
     (case h r of
        Some (ArrayCell xs) \<Rightarrow>
          (let n = int (length xs);
               start = (if idx < 0 then max 0 (n + idx) else min idx n)
           in h(r \<mapsto> ArrayCell (take (nat start) xs @ [item] @ drop (nat start) xs)))
      | _ \<Rightarrow> h)"

text \<open>\<open>self.val.setProperty(key, value)\<close> on an object: an own property, replaced or added last.\<close>

definition setProperty :: "heap \<Rightarrow> ref \<Rightarrow> string \<Rightarrow> jsval \<Rightarrow> heap" where
  "setProperty h r key v =
     (case h r of
        Some (ObjectCell props protos) \<Rightarrow>
          h(r \<mapsto> ObjectCell (if key \<in> fst ` set props
                                then map (\<lambda>kv. if fst kv = key then (key, v) else kv) props
                                else props @ [(key, v)]) protos)
      | _ \<Rightarrow> h)"

text \<open>
  \<open>QtQml.QJSValue(value)\<close> under \<open>utils.suppress(TypeError)\<close>: the constructor takes the
  null marker, booleans, integers, floats and strings; \<open>None\<close> is the suppressed TypeError.
\<close>

definition QJSValue :: "(int \<Rightarrow> pyfloat) \<Rightarrow> pyval \<Rightarrow> jsval option" where
  "QJSValue num value =
     (case value of
        PyNone \<Rightarrow> Some JSNull
      | PyInt i \<Rightarrow> Some (JSNumber (num i))
      | PyFloat f \<Rightarrow> Some (JSNumber f)
      | PyBool b \<Rightarrow> Some (JSBool b)
      | PyStr t \<Rightarrow> Some (JSString t)
      | _ \<Rightarrow> None)"

fun is_proxy :: "pyval \<Rightarrow> bool" where
  "is_proxy (PyArrayProxy r) = True"
| "is_proxy (PyObjectProxy r inst) = True"
| "is_proxy v = False"

text \<open>\<open>callable(value)\<close>: the identity of the callable.\<close>

fun callable :: "pyval \<Rightarrow> nat option" where
  "callable (PyCallable fid) = Some fid"
| "callable (PyObject t c sq mp) = c"
| "callable v = None"

text \<open>\<open>isinstance(value, collections.Sequence)\<close>: the items.\<close>

fun as_sequence :: "pyval \<Rightarrow> pyval list option" where
  "as_sequence (PyList xs) = Some xs"
| "as_sequence (PyStr t) = Some (map (\<lambda>c. PyStr [c]) t)"
| "as_sequence (PyObject t c sq mp) = sq"
| "as_sequence v = None"

text \<open>\<open>isinstance(value, collections.Mapping)\<close>: the entries.\<close>

fun as_mapping :: "pyval \<Rightarrow> (string \<times> pyval) list option" where
  "as_mapping (PyDict kvs) = Some kvs"
| "as_mapping (PyObject t c sq mp) = mp"
| "as_mapping v = None"

fun type_name :: "pyval \<Rightarrow> string" where
  "type_name PyNone = ''NoneType''"
| "type_name (PyInt i) = ''int''"
| "type_name (PyFloat f) = ''float''"
| "type_name (PyBool b) = ''bool''"
| "type_name (PyStr t) = ''str''"
| "type_name (PyDateTime d) = ''datetime.datetime''"
| "type_name (PyRegex p ci) = ''_sre.SRE_Pattern''"
| "type_name (PyArrayProxy r) = ''JSArray''"
| "type_name (PyObjectProxy r inst) = ''JSObject''"
| "type_name (PyList xs) = ''list''"
| "type_name (PyDict kvs) = ''dict''"
| "type_name (PyCallable fid) = ''function''"
| "type_name (PyObject t c sq mp) = t"
| "type_name (PyException e) = cname (exc_class e)"

lemma as_sequence_size:
  "as_sequence v = Some xs \<Longrightarrow> QJSValue num v = None \<Longrightarrow> size_list size xs < size v"
  by (cases v) (auto simp: QJSValue_def)

lemma as_mapping_size:
  "as_mapping v = Some kvs \<Longrightarrow> size_list (size_prod (\<lambda>_. 0) size) kvs < size v"
  by (cases v) auto

text \<open>
  \<open>JSEvaluator.toJS\<close>, with \<open>MutableSequence.extend\<close> on the new array proxy
  (\<open>append\<close> is \<open>insert(len(self), value)\<close>, which encodes the value and splices it in)
  and \<open>MutableMapping.update\<close> on the new object proxy (\<open>self[key] = value\<close> encodes the
  value and sets the property). The date is the value of \<open>new Date("...")\<close> on the ISO text.
\<close>

function toJS :: "pyval \<Rightarrow> evaluator \<Rightarrow> (pyexc + jsval) \<times> evaluator"
and JSArray_extend :: "ref \<Rightarrow> pyval list \<Rightarrow> evaluator \<Rightarrow> (pyexc + unit) \<times> evaluator"
and JSObject_update :: "ref \<Rightarrow> (string \<times> pyval) list \<Rightarrow> evaluator \<Rightarrow> (pyexc + unit) \<times> evaluator"
where
  "toJS value s =
     (if is_proxy value then (proxy_val value, s)
      else case QJSValue (engine_number s) value of
        Some j \<Rightarrow> (Inr j, s)
      | None \<Rightarrow>
         (case callable value of
            Some fid \<Rightarrow> wrapFunction fid s
          | None \<Rightarrow>
             (case as_sequence value of
                Some xs \<Rightarrow>
                  (let (r, s1) = newArray s
                   in case JSArray_extend r xs s1 of
                        (Inl e, s2) \<Rightarrow> (Inl e, s2)
                      | (Inr u, s2) \<Rightarrow> (Inr (JSArray r), s2))
              | None \<Rightarrow>
                 (case as_mapping value of
                    Some kvs \<Rightarrow>
                      (let (r, s1) = newObject s
                       in case JSObject_update r kvs s1 of
                            (Inl e, s2) \<Rightarrow> (Inl e, s2)
                          | (Inr u, s2) \<Rightarrow> (Inr (JSObject r), s2))
                  | None \<Rightarrow>
                     (case value of
                        PyDateTime d \<Rightarrow> (Inr (JSDate d), s)
                      | _ \<Rightarrow> (Inl (mk_exc ValueError
                                 (''Cannot convert object of type '' @ [CHR 0x27] @ type_name value @ [CHR 0x27] @ '' to a JS value'')), s))))))"
| "JSArray_extend r [] s = (Inr (), s)"
| "JSArray_extend r (v # vs) s =
     (let idx = JSArray_len (heap s) r
      in case toJS v s of
           (Inl e, s1) \<Rightarrow> (Inl e, s1)
         | (Inr item, s1) \<Rightarrow> JSArray_extend r vs (s1\<lparr>heap := splice_insert (heap s1) r idx item\<rparr>))"
| "JSObject_update r [] s = (Inr (), s)"
| "JSObject_update r (kv # kvs) s =
     (case toJS (snd kv) s of
        (Inl e, s1) \<Rightarrow> (Inl e, s1)
      | (Inr item, s1) \<Rightarrow> JSObject_update r kvs (s1\<lparr>heap := setProperty (heap s1) r (fst kv) item\<rparr>))"
  by pat_completeness auto

termination toJS
  apply (relation "measure (\<lambda>x. case x of
      Inl (v, s) \<Rightarrow> size v
    | Inr (Inl (r, xs, s)) \<Rightarrow> size_list size xs
    | Inr (Inr (r, kvs, s)) \<Rightarrow> size_list (size_prod (\<lambda>_. 0) size) kvs)")
  apply (auto dest: as_sequence_size as_mapping_size)
  done

declare toJS.simps [simp del]


text \<open>The host's \<open>==\<close> between floats, and between the primitives.\<close>

fun float_eq :: "pyfloat \<Rightarrow> pyfloat \<Rightarrow> bool" where
  "float_eq (Finite a) (Finite b) = (a = b)"
| "float_eq PosInf PosInf = True"
| "float_eq NegInf NegInf = True"
| "float_eq x y = False"

fun numeric :: "pyval \<Rightarrow> pyfloat option" where
  "numeric (PyInt i) = Some (Finite (of_int i))"
| "numeric (PyBool b) = Some (Finite (if b then 1 else 0))"
| "numeric (PyFloat f) = Some f"
| "numeric v = None"

definition py_eq :: "pyval \<Rightarrow> pyval \<Rightarrow> bool" where
  "py_eq a b =
     (case (numeric a, numeric b) of
        (Some x, Some y) \<Rightarrow> float_eq x y
      | (None, None) \<Rightarrow>
          (case (a, b) of
             (PyNone, PyNone) \<Rightarrow> True
           | (PyStr x, PyStr y) \<Rightarrow> x = y
           | _ \<Rightarrow> False)
      | _ \<Rightarrow> False)"


text \<open>
  The state \<open>JSEvaluator.__init__\<close> leaves: the global object and the bootstrap
  script's \<open>_callback\<close> object on the heap, an empty code store, the counter at 1. The
  exception store holds the classes of the \<open>exceptions\<close> module; the ones this
  development names are listed.
\<close>

definition initial_exceptions :: "string \<Rightarrow> exc_class option" where
  "initial_exceptions =
     [''IndexError'' \<mapsto> IndexError, ''KeyError'' \<mapsto> KeyError, ''AttributeError'' \<mapsto> AttributeError,
      ''TypeError'' \<mapsto> TypeError, ''ValueError'' \<mapsto> ValueError, ''OverflowError'' \<mapsto> OverflowError,
      ''RuntimeError'' \<mapsto> RuntimeError]"

definition new_evaluator :: "(int \<Rightarrow> pyfloat) \<Rightarrow> evaluator" where
  "new_evaluator num =
     \<lparr> heap = [0 \<mapsto> ObjectCell [(''_callback'', JSObject 1)] [], 1 \<mapsto> ObjectCell [] []],
       next_ref = 2,
       codeStore = Map.empty,
       counter = 1,
       funcs = Map.empty,
       cache = Map.empty,
       pythonExceptionStore = initial_exceptions,
       engine_number = num \<rparr>"

text \<open>
  An engine that only reports whether the code store already holds the source text
  under the label it is asked to run.
\<close>

definition probe :: "string \<Rightarrow> string \<Rightarrow> int \<Rightarrow> evaluator \<Rightarrow> jsval \<times> evaluator" where
  "probe code path line s = (JSBool (codeStore s path = Some code), s)"


section \<open>Iterating proxies\<close>

text \<open>\<open>JSObject.__iter__\<close>: the names \<open>QJSValueIterator\<close> yields, the own properties.\<close>

definition JSObject_iter :: "heap \<Rightarrow> ref \<Rightarrow> string list" where
  "JSObject_iter h r = map fst (own_props h r)"

text \<open>\<open>Mapping.iteritems\<close> on an object proxy: \<open>(key, self[key])\<close> for every key.\<close>

fun JSObject_items :: "(string \<Rightarrow> exc_class option) \<Rightarrow> (string \<Rightarrow> string option) \<Rightarrow> heap \<Rightarrow> ref \<Rightarrow> string list \<Rightarrow> pyexc + (string \<times> pyval) list" where
  "JSObject_items st cs h r [] = Inr []"
| "JSObject_items st cs h r (key # keys) =
     (case JSObject_getitem st cs h r key of
        Inl e \<Rightarrow> Inl e
      | Inr v \<Rightarrow>
          (case JSObject_items st cs h r keys of
             Inl e \<Rightarrow> Inl e
           | Inr kvs \<Rightarrow> Inr ((key, v) # kvs)))"

definition JSObject_iteritems :: "(string \<Rightarrow> exc_class option) \<Rightarrow> (string \<Rightarrow> string option) \<Rightarrow> heap \<Rightarrow> ref \<Rightarrow> pyexc + (string \<times> pyval) list" where
  "JSObject_iteritems st cs h r = JSObject_items st cs h r (JSObject_iter h r)"

section \<open>The callback dispatcher\<close>

text \<open>
  A registered native callable, over a host state \<open>'h\<close> it may change: whether a call
  with these positional and keyword arguments binds to its signature, and what its body
  then does. A call that does not bind raises TypeError without running the body.
\<close>

record 'h native =
  accepts :: "pyval list \<Rightarrow> (string \<times> pyval) list \<Rightarrow> bool"
  body :: "pyval list \<Rightarrow> (string \<times> pyval) list \<Rightarrow> 'h \<Rightarrow> (pyexc + pyval) \<times> 'h"

definition call :: "'h native \<Rightarrow> pyval list \<Rightarrow> (string \<times> pyval) list \<Rightarrow> 'h \<Rightarrow> (pyexc + pyval) \<times> 'h" where
  "call f pos kw h =
     (if accepts f pos kw then body f pos kw h
      else (Inl (mk_exc TypeError ''arguments do not match the signature''), h))"

text \<open>
  \<open>value.iteritems()\<close>: object proxies and host mappings have it, anything else raises
  AttributeError.
\<close>

definition iteritems :: "evaluator \<Rightarrow> pyval \<Rightarrow> pyexc + (string \<times> pyval) list" where
  "iteritems s v =
     (case v of
        PyObjectProxy r inst \<Rightarrow> JSObject_iteritems (pythonExceptionStore s) (codeStore s) (heap s) r
      | PyDict kvs \<Rightarrow> Inr kvs
      | PyObject t c sq (Some kvs) \<Rightarrow> Inr kvs
      | _ \<Rightarrow> Inl (mk_exc AttributeError ''object has no attribute iteritems''))"

text \<open>
  The first attempt of \<open>Callback.callback\<close>:
  \<open>func(*args[:-1], **dict(args[-1].iteritems()))\<close>. \<open>args[-1]\<close> on an empty list
  raises IndexError.
\<close>

definition strategy1 :: "'h native \<Rightarrow> pyval list \<Rightarrow> evaluator \<Rightarrow> 'h \<Rightarrow> (pyexc + pyval) \<times> 'h" where
  "strategy1 f args s h =
     (if args = [] then (Inl (mk_exc IndexError ''list index out of range''), h)
      else (case iteritems s (last args) of
              Inl e \<Rightarrow> (Inl e, h)
            | Inr kw \<Rightarrow> call f (butlast args) kw h))"

text \<open>\<open>except (AttributeError, TypeError, IndexError)\<close>.\<close>

definition caught :: "pyexc \<Rightarrow> bool" where
  "caught e = (isinstance e AttributeError \<or> isinstance e TypeError \<or> isinstance e IndexError)"

text \<open>\<open>filteredTb\<close>: the extracted frames whose file is not one of \<open>JSEVAL_MASKED_FILES\<close>.\<close>

fun frame_file :: "pyval \<Rightarrow> string" where
  "frame_file (PyList (PyStr f # rest)) = f"
| "frame_file v = []"

definition JSEVAL_MASKED_FILES :: "string \<Rightarrow> string list" where
  "JSEVAL_MASKED_FILES dir = [dir @ ''/__init__.py'', dir @ ''/pyproxies.py'']"

definition filteredTb :: "string \<Rightarrow> pyval list \<Rightarrow> pyval list" where
  "filteredTb dir tb = filter (\<lambda>item. frame_file item \<notin> set (JSEVAL_MASKED_FILES dir)) tb"

text \<open>The two records \<open>callback\<close> assigns to \<open>self.callbackData.result\<close>.\<close>

definition result_record :: "pyval \<Rightarrow> pyval" where
  "result_record result = PyDict [(''type'', PyStr ''result''), (''value'', result)]"

definition exception_record :: "string \<Rightarrow> pyexc \<Rightarrow> pyval" where
  "exception_record dir e =
     PyDict [(''type'', PyStr ''exception''),
             (''value'', PyDict
                [(''message'', PyStr (exc_message e)),
                 (''name'', PyStr (case exc_name e of Some n \<Rightarrow> n | None \<Rightarrow> cname (exc_class e))),
                 (''oldTraceback'',
                    PyList (filteredTb dir (exc_tb e) @
                            (case exc_oldTraceback e of Some tb \<Rightarrow> tb | None \<Rightarrow> [])))])]"

text \<open>
  What a run of \<open>callback\<close> ends in: a record assigned to the shared slot, or an
  exception that leaves \<open>callback\<close> with no record assigned.
\<close>

datatype outcome = Wrote pyval | Escaped pyexc

text \<open>
  \<open>Callback.callback\<close> on the popped argument list \<open>args\<close>, for the directory \<open>dir\<close>
  of the module's files: the outcome, the evaluator state (the exception store may have
  grown) and the host state afterwards. \<open>self.funcs[identifier]\<close> raises KeyError for an
  unknown identifier.
\<close>

definition fallback :: "string \<Rightarrow> 'h native \<Rightarrow> pyval list \<Rightarrow> evaluator \<Rightarrow> 'h \<Rightarrow> outcome \<times> evaluator \<times> 'h" where
  "fallback dir func args s h1 =
     (case call func args [] h1 of
        (Inr result, h2) \<Rightarrow> (Wrote (result_record result), s, h2)
      | (Inl e, h2) \<Rightarrow>
          (Wrote (exception_record dir e),
           (if \<not> isinstance e JSErrorClass
            then s\<lparr>pythonExceptionStore :=
                     (pythonExceptionStore s)(cname (exc_class e) \<mapsto> exc_class e)\<rparr>
            else s),
           h2))"

definition callback :: "string \<Rightarrow> (string \<Rightarrow> 'h native option) \<Rightarrow> string \<Rightarrow> pyval list \<Rightarrow> evaluator \<Rightarrow> 'h \<Rightarrow> outcome \<times> evaluator \<times> 'h" where
  "callback dir natives identifier args s h =
     (case natives identifier of
        None \<Rightarrow> (Escaped (mk_exc KeyError identifier), s, h)
      | Some func \<Rightarrow>
          (case strategy1 func args s h of
             (Inr result, h1) \<Rightarrow> (Wrote (result_record result), s, h1)
           | (Inl e1, h1) \<Rightarrow>
               if caught e1 then fallback dir func args s h1
               else (Escaped e1, s, h1)))"





text \<open>An evaluator whose heap also holds the script object \<open>{k: 1}\<close> at reference 2.\<close>

definition evaluator_with_object :: evaluator where
  "evaluator_with_object =
     (new_evaluator (\<lambda>i. Finite (of_int i)))
       \<lparr>heap := [0 \<mapsto> ObjectCell [(''_callback'', JSObject 1)] [], 1 \<mapsto> ObjectCell [] [],
                  2 \<mapsto> ObjectCell [(''k'', JSNumber (Finite 1))] []],
        next_ref := 3\<rparr>"

section \<open>The script-side wrapper\<close>

text \<open>How a call of a script function ends: it returns a value or throws one.\<close>

datatype script_outcome = Returned jsval | Thrown jsval

text \<open>
  The error the engine throws at \<open>result.type\<close> when \<open>exports.result\<close> is undefined,
  with the stack text the engine gives it.
\<close>

definition undefined_result_error :: "string \<Rightarrow> jsval" where
  "undefined_result_error stack =
     JSError ''TypeError'' ''Cannot read property type of undefined'' stack None"

text \<open>The \<open>oldTraceback\<close> an error value carries: the array the property refers to.\<close>

definition array_elements :: "heap \<Rightarrow> jsval \<Rightarrow> (ref \<times> jsval list) option" where
  "array_elements h v =
     (case v of
        JSArray r \<Rightarrow> (case h r of Some (ArrayCell xs) \<Rightarrow> Some (r, xs) | _ \<Rightarrow> None)
      | _ \<Rightarrow> None)"

text \<open>The text of a string value, as \<open>new Error(message)\<close> and \<open>err.name\<close> take it.\<close>

definition js_string :: "jsval \<Rightarrow> string" where
  "js_string v = (case v of JSString t \<Rightarrow> t | _ \<Rightarrow> [])"

text \<open>
  The end of the function \<open>newWrapper\<close> returns in the bootstrap script, from
  \<open>var result = exports.result\<close> on: a record of type \<open>result\<close> is returned as its
  value, any other record is thrown as an \<open>Error\<close> with the record's message, name and
  \<open>oldTraceback\<close>; \<open>stack\<close> is the stack text of the error made or thrown here.
\<close>

definition newWrapper_finish :: "jsval \<Rightarrow> string \<Rightarrow> heap \<Rightarrow> script_outcome" where
  "newWrapper_finish result stack h =
     (case result of
        JSObject r \<Rightarrow>
          if object_property h r ''type'' = JSString ''result''
          then Returned (object_property h r ''value'')
          else (case object_property h r ''value'' of
                  JSObject v \<Rightarrow>
                    Thrown (JSError (js_string (object_property h v ''name''))
                                    (js_string (object_property h v ''message''))
                                    stack
                                    (array_elements h (object_property h v ''oldTraceback'')))
                | _ \<Rightarrow> Thrown (undefined_result_error stack))
      | _ \<Rightarrow> Thrown (undefined_result_error stack))"

text \<open>
  A call of the wrapper with the script values \<open>arguments\<close>: they are put on the
  shared slot as an array, \<open>pyCallback(id)\<close> runs \<open>Callback.callback\<close> on the decoded
  list, and the record \<open>callback\<close> assigns to \<open>result\<close> is encoded. An exception that
  leaves \<open>callback\<close> assigns nothing, so \<open>exports.result\<close> stays undefined.
\<close>

definition newWrapper :: "string \<Rightarrow> (string \<Rightarrow> 'h native option) \<Rightarrow> string \<Rightarrow> jsval list \<Rightarrow> string \<Rightarrow> evaluator \<Rightarrow> 'h \<Rightarrow> script_outcome \<times> evaluator \<times> 'h" where
  "newWrapper dir natives ident arguments stack s h =
     (let ra = next_ref s;
          s1 = s\<lparr>heap := (heap s)(ra \<mapsto> ArrayCell arguments), next_ref := Suc ra\<rparr>
      in case toPy_items (pythonExceptionStore s1) (codeStore s1) ra arguments of
           Inl e \<Rightarrow> (Thrown (undefined_result_error stack), s1, h)
         | Inr args \<Rightarrow>
             (case callback dir natives ident args s1 h of
                (Escaped e, s2, h2) \<Rightarrow> (Thrown (undefined_result_error stack), s2, h2)
              | (Wrote record, s2, h2) \<Rightarrow>
                  (case toJS record s2 of
                     (Inl e, s3) \<Rightarrow> (Thrown (undefined_result_error stack), s3, h2)
                   | (Inr result, s3) \<Rightarrow> (newWrapper_finish result stack (heap s3), s3, h2))))"

text \<open>
  \<open>eval\<close> of a source whose run is one top-level call of the wrapper: a thrown error
  is the value of the evaluation. \<open>stack\<close> gives the stack text for the label.
\<close>

definition eval_call :: "string \<Rightarrow> (string \<Rightarrow> 'h native option) \<Rightarrow> string \<Rightarrow> jsval list \<Rightarrow> (string \<Rightarrow> string) \<Rightarrow> string \<Rightarrow> evaluator \<Rightarrow> 'h \<Rightarrow> (pyexc + pyval) \<times> evaluator" where
  "eval_call dir natives ident arguments stack code s h =
     eval (\<lambda>code path line s1.
             case newWrapper dir natives ident arguments (stack path) s1 h of
               (Returned v, s2, h2) \<Rightarrow> (v, s2)
             | (Thrown v, s2, h2) \<Rightarrow> (v, s2))
          code None 1 s"

text \<open>
  A host-defined exception class, a callable \<open>def f(**kw): raise DomainError("x")\<close>,
  and the stack text of an error made in code called from the top level of the source.
\<close>

definition DomainError :: exc_class where
  "DomainError = ExcClass 7 ''DomainError'' [''Exception'', ''BaseException''] True"

definition raiser :: "nat native" where
  "raiser = \<lparr> accepts = (\<lambda>pos kw. pos = []),
               body = (\<lambda>pos kw h. (Inl (mk_exc DomainError ''x''), Suc h)) \<rparr>"

definition entry_stack :: "string \<Rightarrow> string" where
  "entry_stack path = ''%entry@'' @ path @ '':1''"

section \<open>The trace of a decoded script error, as specified\<close>









section \<open>Notions for the encoding's properties\<close>

text \<open>
  Between two states: references are only added and every cell that existed is as it
  was (\<open>frame_ok\<close>), or every cell but the one at \<open>r0\<close> (\<open>frame_but\<close>).
\<close>

definition frame_ok :: "evaluator \<Rightarrow> evaluator \<Rightarrow> bool" where
  "frame_ok s s' = (next_ref s \<le> next_ref s' \<and> (\<forall>r < next_ref s. heap s' r = heap s r))"

definition frame_but :: "ref \<Rightarrow> evaluator \<Rightarrow> evaluator \<Rightarrow> bool" where
  "frame_but r0 s s' = (next_ref s \<le> next_ref s' \<and> (\<forall>r < next_ref s. r \<noteq> r0 \<longrightarrow> heap s' r = heap s r))"

text \<open>\<open>j\<close> is an encoding of \<open>x\<close>: \<open>toJS\<close> returns it on some state.\<close>

definition encodes :: "pyval \<Rightarrow> jsval \<Rightarrow> bool" where
  "encodes x j = (\<exists>t t'. toJS x t = (Inr j, t'))"

text \<open>
  The error \<open>toJS\<close> raises for a value it cannot convert, and an instance of a class
  that is both a \<open>collections.Sequence\<close> and a \<open>collections.Mapping\<close>.
\<close>

definition conversion_error :: "pyval \<Rightarrow> pyexc" where
  "conversion_error v =
     mk_exc ValueError (''Cannot convert object of type '' @ [CHR 0x27] @ type_name v @ [CHR 0x27] @ '' to a JS value'')"

definition both_sequence_and_mapping :: pyval where
  "both_sequence_and_mapping = PyObject ''Both'' None (Some [PyInt 1]) (Some [(''a'', PyInt 1)])"

section \<open>Copies of proxies\<close>

text \<open>Applying a failing step to every item in order: the first failure ends the loop.\<close>

fun each :: "('a \<Rightarrow> pyexc + 'b) \<Rightarrow> 'a list \<Rightarrow> pyexc + 'b list" where
  "each f [] = Inr []"
| "each f (x # xs) =
     (case f x of
        Inl e \<Rightarrow> Inl e
      | Inr y \<Rightarrow> (case each f xs of Inl e \<Rightarrow> Inl e | Inr ys \<Rightarrow> Inr (y # ys)))"

text \<open>Copying the item a proxy access returned, or passing its failure on.\<close>

definition then_copy :: "(pyval \<Rightarrow> pyexc + pyval) \<Rightarrow> pyexc + pyval \<Rightarrow> pyexc + pyval" where
  "then_copy copy got = (case got of Inl e \<Rightarrow> Inl e | Inr item \<Rightarrow> copy item)"

text \<open>Copying the value of a \<open>(key, value)\<close> pair.\<close>

definition keyed :: "(pyval \<Rightarrow> pyexc + pyval) \<Rightarrow> string \<times> pyval \<Rightarrow> pyexc + string \<times> pyval" where
  "keyed copy kv = (case copy (snd kv) of Inl e \<Rightarrow> Inl e | Inr c \<Rightarrow> Inr (fst kv, c))"

text \<open>
  \<open>copy.deepcopy(value)\<close> with \<open>n\<close> levels of recursion left; at none the host raises
  its recursion error. An array proxy is \<open>JSArray.__deepcopy__\<close>: a list of the deep
  copies of \<open>self[i]\<close>; an object proxy is \<open>JSObject.__deepcopy__\<close>: a
  \<open>JSObjectCopy\<close> (a dict) of the deep copies of \<open>self[key]\<close> for the keys it
  iterates. Host lists, dicts, class instances and exceptions are copied item by item,
  a compiled pattern cannot be deep-copied, and the other values are returned as they are.
  The memo dictionary only shares the copies of host objects met twice; it is left out.
\<close>

primrec deepcopy :: "(string \<Rightarrow> exc_class option) \<Rightarrow> (string \<Rightarrow> string option) \<Rightarrow> heap \<Rightarrow> nat \<Rightarrow> pyval \<Rightarrow> pyexc + pyval" where
  "deepcopy st cs h 0 = (\<lambda>v. Inl (mk_exc RuntimeError ''maximum recursion depth exceeded''))"
| "deepcopy st cs h (Suc n) = (\<lambda>v.
     case v of
        PyArrayProxy r \<Rightarrow>
          (case each (\<lambda>i. then_copy (deepcopy st cs h n) (JSArray_getitem st cs h r i))
                     (map int [0 ..< nat (JSArray_len h r)]) of
             Inl e \<Rightarrow> Inl e
           | Inr ys \<Rightarrow> Inr (PyList ys))
      | PyObjectProxy r inst \<Rightarrow>
          (case each (\<lambda>key. case then_copy (deepcopy st cs h n) (JSObject_getitem st cs h r key) of
                                Inl e \<Rightarrow> Inl e
                              | Inr c \<Rightarrow> Inr (key, c))
                     (JSObject_iter h r) of
             Inl e \<Rightarrow> Inl e
           | Inr kvs \<Rightarrow> Inr (PyDict kvs))
      | PyList xs \<Rightarrow>
          (case each (deepcopy st cs h n) xs of Inl e \<Rightarrow> Inl e | Inr ys \<Rightarrow> Inr (PyList ys))
      | PyDict kvs \<Rightarrow>
          (case each (keyed (deepcopy st cs h n)) kvs of Inl e \<Rightarrow> Inl e | Inr ys \<Rightarrow> Inr (PyDict ys))
      | PyRegex p ci \<Rightarrow> Inl (mk_exc TypeError ''cannot deepcopy this pattern object'')
      | PyException e \<Rightarrow>
          (case each (deepcopy st cs h n) (case exc_oldTraceback e of None \<Rightarrow> [] | Some tb \<Rightarrow> tb) of
             Inl e' \<Rightarrow> Inl e'
           | Inr old \<Rightarrow>
               (case each (deepcopy st cs h n) (exc_tb e) of
                  Inl e' \<Rightarrow> Inl e'
                | Inr tb \<Rightarrow>
                    Inr (PyException (Exc (exc_class e) (exc_message e) (exc_name e)
                           (case exc_oldTraceback e of None \<Rightarrow> None | Some x \<Rightarrow> Some old) tb))))
      | PyObject t c sq mp \<Rightarrow>
          (case each (deepcopy st cs h n) (case sq of None \<Rightarrow> [] | Some xs \<Rightarrow> xs) of
             Inl e \<Rightarrow> Inl e
           | Inr ys \<Rightarrow>
               (case each (keyed (deepcopy st cs h n)) (case mp of None \<Rightarrow> [] | Some kvs \<Rightarrow> kvs) of
                  Inl e \<Rightarrow> Inl e
                | Inr zs \<Rightarrow>
                    Inr (PyObject t c (case sq of None \<Rightarrow> None | Some x \<Rightarrow> Some ys)
                                      (case mp of None \<Rightarrow> None | Some x \<Rightarrow> Some zs))))
      | _ \<Rightarrow> Inr v)"

text \<open>A host value with no proxy anywhere inside it.\<close>

primrec proxy_free :: "pyval \<Rightarrow> bool" and proxy_free_exc :: "pyexc \<Rightarrow> bool" where
  "proxy_free PyNone = True"
| "proxy_free (PyInt i) = True"
| "proxy_free (PyFloat f) = True"
| "proxy_free (PyBool b) = True"
| "proxy_free (PyStr t) = True"
| "proxy_free (PyDateTime d) = True"
| "proxy_free (PyRegex p ci) = True"
| "proxy_free (PyArrayProxy r) = False"
| "proxy_free (PyObjectProxy r inst) = False"
| "proxy_free (PyList xs) = list_all id (map proxy_free xs)"
| "proxy_free (PyDict kvs) = list_all snd (map (map_prod id proxy_free) kvs)"
| "proxy_free (PyCallable fid) = True"
| "proxy_free (PyObject t c sq mp) =
     ((case map_option (map proxy_free) sq of None \<Rightarrow> True | Some bs \<Rightarrow> list_all id bs) \<and>
      (case map_option (map (map_prod id proxy_free)) mp of None \<Rightarrow> True | Some bs \<Rightarrow> list_all snd bs))"
| "proxy_free (PyException e) = proxy_free_exc e"
| "proxy_free_exc (Exc c m nm old tb) =
     ((case map_option (map proxy_free) old of None \<Rightarrow> True | Some bs \<Rightarrow> list_all id bs) \<and>
      list_all id (map proxy_free tb))"

text \<open>
  \<open>self.val.setProperty(idx, value)\<close> on an array: the element is replaced, or the
  array grows to hold it. The engine takes an unsigned index; a negative one is left
  without effect here.
\<close>

definition array_setProperty :: "heap \<Rightarrow> ref \<Rightarrow> int \<Rightarrow> jsval \<Rightarrow> heap" where
  "array_setProperty h r idx v =
     (case h r of
        Some (ArrayCell xs) \<Rightarrow>
          if idx < 0 then h
          else if idx < int (length xs) then h(r \<mapsto> ArrayCell (xs[nat idx := v]))
          else h(r \<mapsto> ArrayCell (xs @ replicate (nat idx - length xs) JSUndefined @ [v]))
      | _ \<Rightarrow> h)"

text \<open>\<open>d[k] = v\<close> on a host dict.\<close>

definition dict_set :: "(string \<times> pyval) list \<Rightarrow> string \<Rightarrow> pyval \<Rightarrow> (string \<times> pyval) list" where
  "dict_set kvs k v =
     (if k \<in> fst ` set kvs then map (\<lambda>kv. if fst kv = k then (k, v) else kv) kvs
      else kvs @ [(k, v)])"

text \<open>
  \<open>c[k]\<close> in host code: on a list, a dict, an array proxy (\<open>JSArray.__getitem__\<close>) or
  an object proxy (\<open>JSObject.__getitem__\<close>, also reached by attribute access).
\<close>

definition py_getitem :: "evaluator \<Rightarrow> pyval \<Rightarrow> pyval \<Rightarrow> pyexc + pyval" where
  "py_getitem s c k =
     (case (c, k) of
        (PyList xs, PyInt i) \<Rightarrow> py_index xs i
      | (PyDict kvs, PyStr key) \<Rightarrow>
          (case map_of kvs key of None \<Rightarrow> Inl (mk_exc KeyError key) | Some v \<Rightarrow> Inr v)
      | (PyArrayProxy r, PyInt i) \<Rightarrow>
          JSArray_getitem (pythonExceptionStore s) (codeStore s) (heap s) r i
      | (PyObjectProxy r inst, PyStr key) \<Rightarrow>
          JSObject_getitem (pythonExceptionStore s) (codeStore s) (heap s) r key
      | _ \<Rightarrow> Inl (mk_exc TypeError ''object does not support this item access''))"

text \<open>\<open>xs[i] = v\<close> on a host list.\<close>

definition list_set :: "pyval list \<Rightarrow> int \<Rightarrow> pyval \<Rightarrow> pyexc + pyval list" where
  "list_set xs i v =
     (if 0 \<le> i \<and> i < int (length xs) then Inr (xs[nat i := v])
      else if i < 0 \<and> - int (length xs) \<le> i then Inr (xs[nat (int (length xs) + i) := v])
      else Inl (mk_exc IndexError ''list assignment index out of range''))"

text \<open>
  \<open>c[k] = v\<close> in host code: the container afterwards and the evaluator state. On a
  proxy it is \<open>JSValue.__setitem__\<close>: the value is encoded and set on the script value.
\<close>

definition py_setitem :: "pyval \<Rightarrow> pyval \<Rightarrow> pyval \<Rightarrow> evaluator \<Rightarrow> (pyexc + pyval) \<times> evaluator" where
  "py_setitem c k v s =
     (case (c, k) of
        (PyList xs, PyInt i) \<Rightarrow>
          (case list_set xs i v of Inl e \<Rightarrow> (Inl e, s) | Inr ys \<Rightarrow> (Inr (PyList ys), s))
      | (PyDict kvs, PyStr key) \<Rightarrow> (Inr (PyDict (dict_set kvs key v)), s)
      | (PyArrayProxy r, PyInt i) \<Rightarrow>
          (case toJS v s of
             (Inl e, s1) \<Rightarrow> (Inl e, s1)
           | (Inr j, s1) \<Rightarrow> (Inr c, s1\<lparr>heap := array_setProperty (heap s1) r i j\<rparr>))
      | (PyObjectProxy r inst, PyStr key) \<Rightarrow>
          (case toJS v s of
             (Inl e, s1) \<Rightarrow> (Inl e, s1)
           | (Inr j, s1) \<Rightarrow> (Inr c, s1\<lparr>heap := setProperty (heap s1) r key j\<rparr>))
      | _ \<Rightarrow> (Inl (mk_exc TypeError ''object does not support item assignment''), s))"

text \<open>The outer host container once an inner one has been changed.\<close>

definition put_back :: "pyval \<Rightarrow> pyval \<Rightarrow> pyval \<Rightarrow> pyval" where
  "put_back c k inner =
     (case (c, k) of
        (PyList xs, PyInt i) \<Rightarrow> (case list_set xs i inner of Inl e \<Rightarrow> c | Inr ys \<Rightarrow> PyList ys)
      | (PyDict kvs, PyStr key) \<Rightarrow> PyDict (dict_set kvs key inner)
      | _ \<Rightarrow> c)"

text \<open>\<open>c[k1][k2]...[kn] = v\<close>.\<close>

fun py_set_path :: "pyval \<Rightarrow> pyval list \<Rightarrow> pyval \<Rightarrow> evaluator \<Rightarrow> (pyexc + pyval) \<times> evaluator" where
  "py_set_path c [] v s = (Inr c, s)"
| "py_set_path c [k] v s = py_setitem c k v s"
| "py_set_path c (k # k' # ks) v s =
     (case py_getitem s c k of
        Inl e \<Rightarrow> (Inl e, s)
      | Inr inner \<Rightarrow>
          (case py_set_path inner (k' # ks) v s of
             (Inl e, s1) \<Rightarrow> (Inl e, s1)
           | (Inr inner', s1) \<Rightarrow> (Inr (put_back c k inner'), s1)))"

text \<open>\<open>c[k1][k2]...[kn]\<close>.\<close>

fun py_get_path :: "evaluator \<Rightarrow> pyval \<Rightarrow> pyval list \<Rightarrow> pyexc + pyval" where
  "py_get_path s c [] = Inr c"
| "py_get_path s c (k # ks) =
     (case py_getitem s c k of Inl e \<Rightarrow> Inl e | Inr inner \<Rightarrow> py_get_path s inner ks)"

text \<open>
  An evaluator whose heap also holds the script array \<open>[{key: 1}]\<close> at reference 2
  (its object at 3) and, at 4, an array that contains itself.
\<close>

definition evaluator_with_array :: evaluator where
  "evaluator_with_array =
     (new_evaluator (\<lambda>i. Finite (of_int i)))
       \<lparr>heap := [0 \<mapsto> ObjectCell [(''_callback'', JSObject 1)] [], 1 \<mapsto> ObjectCell [] [],
                  2 \<mapsto> ArrayCell [JSObject 3], 3 \<mapsto> ObjectCell [(''key'', JSNumber (Finite 1))] [],
                  4 \<mapsto> ArrayCell [JSArray 4]],
        next_ref := 5\<rparr>"

text \<open>\<open>copy.deepcopy(a)\<close> on the evaluator state \<open>s\<close>.\<close>

definition snapshot :: "nat \<Rightarrow> evaluator \<Rightarrow> pyval \<Rightarrow> pyexc + pyval" where
  "snapshot n s a = deepcopy (pythonExceptionStore s) (codeStore s) (heap s) n a"

text \<open>
  A failure's way out through several boundaries, innermost first. \<open>IntoScript tb\<close>: a
  host failure with the traceback frames \<open>tb\<close> leaves a dispatched callback, whose
  record takes \<open>filteredTb(tb) + oldTraceback\<close>. \<open>IntoHost stack\<close>: the script error
  with this stack text is decoded by \<open>buildPyError\<close>, which stores
  \<open>stackInfo + oldTraceback\<close>. \<open>stitched\<close> is the trace after all of them, \<open>levels\<close>
  the number of frames a crossing adds.
\<close>

datatype crossing = IntoScript "pyval list" | IntoHost string

fun stitched :: "string \<Rightarrow> (string \<Rightarrow> string option) \<Rightarrow> crossing list \<Rightarrow> pyval list \<Rightarrow> pyexc + pyval list" where
  "stitched dir cs [] acc = Inr acc"
| "stitched dir cs (IntoScript tb # xs) acc = stitched dir cs xs (filteredTb dir tb @ acc)"
| "stitched dir cs (IntoHost stack # xs) acc =
     (case stack_loop cs (relevant_stack stack) [] of
        Inl e \<Rightarrow> Inl e
      | Inr stackInfo \<Rightarrow> stitched dir cs xs (stackInfo @ acc))"

fun levels :: "string \<Rightarrow> crossing \<Rightarrow> nat" where
  "levels dir (IntoScript tb) = length (filteredTb dir tb)"
| "levels dir (IntoHost stack) = length (relevant_stack stack)"

section \<open>Properties of array proxies\<close>




section \<open>Properties of object proxies\<close>





section \<open>Round trip of primitives\<close>

lemma buildNumber_integral:
  "buildNumber (Finite (of_int i)) = PyInt i"
  by (simp add: buildNumber_def py_int_def float_eq_int_def)








lemma py_eq_refl_PyFloat: "py_eq (PyFloat f) (PyFloat f) \<longleftrightarrow> f \<noteq> NaN"
  by (cases f) (simp_all add: py_eq_def)




section \<open>Labels of evaluated sources\<close>

lemma digit_val_digit_char: "d < 10 \<Longrightarrow> digit_val (digit_char d) = d"
  by (simp add: digit_val_def digit_char_def)

lemma nat_of_digits_snoc: "nat_of_digits (ds @ [c]) = 10 * nat_of_digits ds + digit_val c"
  by (simp add: nat_of_digits_def)

lemma nat_of_digits_str_nat: "nat_of_digits (str_nat n) = n"
proof (induction n rule: str_nat.induct)
  case (1 n)
  show ?case
  proof (cases "n < 10")
    case True
    then show ?thesis
      by (subst str_nat.simps) (simp add: nat_of_digits_def digit_val_digit_char)
  next
    case False
    with 1 have "nat_of_digits (str_nat (n div 10)) = n div 10" by simp
    with False show ?thesis
      by (subst str_nat.simps) (simp add: nat_of_digits_snoc digit_val_digit_char)
  qed
qed

lemma str_nat_inj: "str_nat a = str_nat b \<Longrightarrow> a = b"
  by (metis nat_of_digits_str_nat)

lemma label_inj: "fst (eval_path None s) = fst (eval_path None s') \<longleftrightarrow> counter s = counter s'"
  by (auto simp: eval_path_def dest: str_nat_inj)

lemma str_nat_1: "str_nat 1 = ''1''"
  by code_simp

lemma str_nat_Suc_0: "str_nat (Suc 0) = ''1''"
  using str_nat_1 by simp

lemma eval_probe: "fst (eval probe code p line s) = Inr (PyBool True)"
  by (simp add: eval_def probe_def Let_def throwIfNecessary_def split: prod.splits)

lemma eval_snd:
  "eval_path p s = (path, s1) \<Longrightarrow>
   snd (eval evaluate code p line s) =
   snd (evaluate code path line (s1\<lparr>codeStore := (codeStore s1)(path \<mapsto> code)\<rparr>))"
  by (simp add: eval_def Let_def split: prod.splits)

lemma eval_counter:
  assumes "\<forall>c p l t. counter t \<le> counter (snd (evaluate c p l t))"
  shows "counter (snd (eval_path p s)) \<le> counter (snd (eval evaluate code p line s))"
proof -
  obtain path s1 where p: "eval_path p s = (path, s1)" by (cases "eval_path p s")
  let ?s2 = "s1\<lparr>codeStore := (codeStore s1)(path \<mapsto> code)\<rparr>"
  have "counter ?s2 \<le> counter (snd (evaluate code path line ?s2))" using assms by blast
  then show ?thesis using p eval_snd [OF p, of evaluate code line] by simp
qed

text \<open>
  Claim C9, as amended. \<open>eval\<close> records the source under its label before the engine
  runs it: an engine that looks the label up in the code store finds the source text.
  Without a label, the label is made from the evaluator's own counter, which the call
  increases; with an engine that never decreases the counter (it can only run further
  \<open>eval\<close> calls), any later call without a label on the same evaluator gets a
  different label.
\<close>

theorem eval_label_per_evaluator:
  assumes "\<forall>c p l t. counter t \<le> counter (snd (evaluate c p l t))"
  shows "fst (eval probe code p line s) = Inr (PyBool True) \<and>
         counter s < counter (snd (eval evaluate code None line s)) \<and>
         counter s \<le> counter (snd (eval evaluate code p line s)) \<and>
         (\<forall>s'. counter s < counter s' \<longrightarrow> fst (eval_path None s') \<noteq> fst (eval_path None s))"
proof -
  have a: "counter (snd (eval_path None s)) = Suc (counter s)"
    by (simp add: eval_path_def)
  have b: "counter s \<le> counter (snd (eval_path p s))"
    by (simp add: eval_path_def)
  have c: "counter s < counter s' \<Longrightarrow> fst (eval_path None s') \<noteq> fst (eval_path None s)" for s'
    using label_inj [of s' s] by simp
  show ?thesis
    using eval_probe a b c eval_counter [OF assms, of None s code line]
      eval_counter [OF assms, of p s code line]
    by (simp add: less_eq_Suc_le order_trans)
qed

theorem eval_label_per_evaluator_witness:
  "fst (eval probe ''f()'' None 1 (new_evaluator (\<lambda>i. Finite (of_int i)))) = Inr (PyBool True) \<and>
   fst (eval_path None (snd (eval probe ''f()'' None 1 (new_evaluator (\<lambda>i. Finite (of_int i)))))) \<noteq>
   fst (eval_path None (new_evaluator (\<lambda>i. Finite (of_int i))))"
proof -
  have m: "\<forall>c p l t. counter t \<le> counter (snd (probe c p l t))"
    by (simp add: probe_def)
  from eval_label_per_evaluator [OF m, of "''f()''" None 1 "new_evaluator (\<lambda>i. Finite (of_int i))"]
  show ?thesis by blast
qed

text \<open>
  The claim as stated fails across evaluators: the counter belongs to the evaluator, so
  the first call without a label on each of two evaluators of one process uses the
  same label.
\<close>

theorem eval_label_shared_by_two_evaluators:
  "codeStore (snd (eval probe ''a()'' None 1 (new_evaluator (\<lambda>i. Finite (of_int i))))) ''<JS string 1>'' = Some ''a()'' \<and>
   codeStore (snd (eval probe ''b()'' None 1 (new_evaluator (\<lambda>i. Finite (of_int i))))) ''<JS string 1>'' = Some ''b()''"
  by (simp add: eval_def eval_path_def probe_def new_evaluator_def str_nat_Suc_0 Let_def)

section \<open>Wrapping native callables\<close>





section \<open>The dispatcher's binding fallback\<close>

lemma iteritems_object:
  "heap s 2 = Some (ObjectCell [(''k'', JSNumber (Finite 1))] []) \<Longrightarrow>
   iteritems s (PyObjectProxy 2 inst) = Inr [(''k'', PyInt 1)]"
  by (simp add: iteritems_def JSObject_iteritems_def
        JSObject_iter_def own_props_def JSObject_getitem_def hasProperty_def hasOwnProperty_def
        proto_chain_def JSObject_get_def object_property_def buildNumber_integral [of 1, simplified])





section \<open>Exception kinds across the boundary\<close>

text \<open>
  When the failure arises in the fallback call, the dispatcher records its class under
  its name, and reconstruction from the record's name and message gives an exception of
  that class with that message.
\<close>

lemma fallback_records_kind:
  assumes "call func args [] h1 = (Inl e, h2)"
    and "\<not> isinstance e JSErrorClass"
    and "exc_name e = None"
    and "takes_message (exc_class e)"
  shows "fst (fallback dir func args s h1) = Wrote (exception_record dir e) \<and>
         reconstruct (pythonExceptionStore (fst (snd (fallback dir func args s h1))))
           (cname (exc_class e)) (exc_message e) = Inr (mk_exc (exc_class e) (exc_message e))"
  using assms by (simp add: fallback_def reconstruct_def)

lemma relevant_entry: "relevant_stack ''%entry@<JS string 1>:1'' = [''%entry@<JS string 1>:1'']"
  by code_simp

lemma match_entry: "JS_STACK_RE_match ''%entry@<JS string 1>:1'' = Some (''%entry'', ''<JS string 1>'', ''1'')"
  by code_simp

lemma digits_1: "nat_of_digits ''1'' = 1"
  by code_simp

lemma split_code1: "split_on CHR 0x0A ''f({k: 1})'' = [''f({k: 1})'']"
  by code_simp

lemma stack_item_entry:
  "cs ''<JS string 1>'' = Some ''f({k: 1})'' \<Longrightarrow>
   stack_item cs ''%entry@<JS string 1>:1'' =
     Inr (PyList [PyStr ''<JS string 1>'', PyInt 1, PyStr ''<global scope>'', PyStr ''f({k: 1})''])"
  by (simp add: stack_item_def match_entry digits_1 split_code1 py_index_def)


lemma callback_raiser:
  "heap s 2 = Some (ObjectCell [(''k'', JSNumber (Finite 1))] []) \<Longrightarrow>
   callback dir [''140'' \<mapsto> raiser] ''140'' [PyObjectProxy 2 inst] s 0 =
     (Escaped (mk_exc DomainError ''x''), s, Suc 0)"
  by (simp add: callback_def strategy1_def iteritems_object call_def raiser_def caught_def
      isinstance_def mk_exc_def DomainError_def AttributeError_def TypeError_def IndexError_def builtin_def)

lemma newWrapper_raiser:
  "heap s 2 = Some (ObjectCell [(''k'', JSNumber (Finite 1))] []) \<Longrightarrow> next_ref s = 3 \<Longrightarrow>
   fst (newWrapper dir [''140'' \<mapsto> raiser] ''140'' [JSObject 2] stack s 0) =
     Thrown (undefined_result_error stack) \<and>
   pythonExceptionStore (fst (snd (newWrapper dir [''140'' \<mapsto> raiser] ''140'' [JSObject 2] stack s 0))) =
     pythonExceptionStore s \<and>
   codeStore (fst (snd (newWrapper dir [''140'' \<mapsto> raiser] ''140'' [JSObject 2] stack s 0))) =
     codeStore s"
  by (simp add: newWrapper_def Let_def callback_raiser)

lemma takes_message_TypeError: "takes_message TypeError"
  by (simp add: TypeError_def builtin_def)

lemma buildPyError_entry:
  "cs ''<JS string 1>'' = Some ''f({k: 1})'' \<Longrightarrow>
   toPy initial_exceptions cs (undefined_result_error ''%entry@<JS string 1>:1'') None =
     Inr (PyException (Exc TypeError ''Cannot read property type of undefined'' None
            (Some [PyList [PyStr ''<JS string 1>'', PyInt 1, PyStr ''<global scope>'', PyStr ''f({k: 1})'']]) []))"
  by (simp add: undefined_result_error_def buildPyError_def relevant_entry stack_item_entry
      reconstruct_def initial_exceptions_def mk_exc_def takes_message_TypeError)


lemma eval_path_with_object:
  "eval_path None evaluator_with_object = (''<JS string 1>'', evaluator_with_object\<lparr>counter := 2\<rparr>)"
  by (simp add: eval_path_def evaluator_with_object_def new_evaluator_def str_nat_Suc_0)

text \<open>
  Claim C2 at a failing input. The callable \<open>def f(**kw): raise DomainError("x")\<close> is
  called from script as \<open>f({k: 1})\<close>: the keyword interpretation binds, the body raises
  DomainError in the first attempt, which \<open>callback\<close> does not catch. No record is
  written and no class is recorded; the wrapper finds no result, the engine throws a
  TypeError, and the exception \<open>eval\<close> raises is a TypeError, not a DomainError.
\<close>

theorem eval_call_kind_lost:
  "fst (eval_call ''/jseval'' [''140'' \<mapsto> raiser] ''140'' [JSObject 2] entry_stack ''f({k: 1})''
          evaluator_with_object 0) =
     Inl (Exc TypeError ''Cannot read property type of undefined'' None
            (Some [PyList [PyStr ''<JS string 1>'', PyInt 1, PyStr ''<global scope>'', PyStr ''f({k: 1})'']]) []) \<and>
   pythonExceptionStore
     (snd (eval_call ''/jseval'' [''140'' \<mapsto> raiser] ''140'' [JSObject 2] entry_stack ''f({k: 1})''
             evaluator_with_object 0)) ''DomainError'' = None"
proof -
  let ?s2 = "evaluator_with_object\<lparr>counter := 2,
               codeStore := (codeStore evaluator_with_object)(''<JS string 1>'' \<mapsto> ''f({k: 1})'')\<rparr>"
  let ?w = "newWrapper ''/jseval'' [''140'' \<mapsto> raiser] ''140'' [JSObject 2] (entry_stack ''<JS string 1>'') ?s2 (0::nat)"
  have h: "heap ?s2 2 = Some (ObjectCell [(''k'', JSNumber (Finite 1))] [])" "next_ref ?s2 = 3"
    by (simp_all add: evaluator_with_object_def)
  note w = newWrapper_raiser [OF h, of "''/jseval''" "entry_stack ''<JS string 1>''"]
  have st: "pythonExceptionStore (fst (snd ?w)) = initial_exceptions"
    using w by (simp add: evaluator_with_object_def new_evaluator_def)
  have cs: "codeStore (fst (snd ?w)) ''<JS string 1>'' = Some ''f({k: 1})''"
    using w by simp
  have e: "entry_stack ''<JS string 1>'' = ''%entry@<JS string 1>:1''"
    by (simp add: entry_stack_def)
  obtain o1 s3 h3 where ww: "?w = (o1, s3, h3)" by (cases ?w) auto
  with w st cs have o1: "o1 = Thrown (undefined_result_error ''%entry@<JS string 1>:1'')"
    and st3: "pythonExceptionStore s3 = initial_exceptions"
    and cs3: "codeStore s3 ''<JS string 1>'' = Some ''f({k: 1})''"
    by (simp_all add: e)
  have d: "initial_exceptions ''DomainError'' = None"
    by (simp add: initial_exceptions_def)
  note b = buildPyError_entry [of "codeStore s3", OF cs3]
  show ?thesis
    by (simp add: eval_call_def eval_def eval_path_with_object Let_def ww o1 st3
        b throwIfNecessary_def d)
qed

section \<open>The trace of a decoded script error\<close>

lemma split_on_nonempty: "split_on c s \<noteq> []"
  by (induction s) (auto split: list.splits)












lemma filteredTb_no_masked:
  "fr \<in> set (filteredTb dir tb) \<Longrightarrow> frame_file fr \<notin> set (JSEVAL_MASKED_FILES dir)"
  by (simp add: filteredTb_def)

text \<open>
  Over any number of crossings every frame is kept: the trace has one frame for every
  unmasked host frame and every kept script frame of every crossing, and the frames
  gathered so far stay at its end.
\<close>

lemma stack_loop_length:
  "stack_loop cs items acc = Inr res \<Longrightarrow> length res = length items + length acc"
  by (induction items arbitrary: acc) (auto split: sum.splits)

lemma stitched_complete:
  "stitched dir cs xs acc = Inr tr \<Longrightarrow>
   length tr = sum_list (map (levels dir) xs) + length acc \<and> suffix acc tr"
proof (induction xs arbitrary: acc)
  case Nil
  then show ?case by simp
next
  case (Cons x xs)
  show ?case
  proof (cases x)
    case (IntoScript tb)
    with Cons.prems have "stitched dir cs xs (filteredTb dir tb @ acc) = Inr tr" by simp
    from Cons.IH [OF this] IntoScript show ?thesis
      by (auto intro: suffix_appendD)
  next
    case (IntoHost stack)
    with Cons.prems obtain si where s: "stack_loop cs (relevant_stack stack) [] = Inr si"
      and r: "stitched dir cs xs (si @ acc) = Inr tr"
      by (auto split: sum.splits)
    from stack_loop_length [OF s] Cons.IH [OF r] IntoHost show ?thesis
      by (auto intro: suffix_appendD)
  qed
qed

section \<open>The order of encoding\<close>

lemma frame_ok_refl: "frame_ok s s" by (simp add: frame_ok_def)
lemma frame_but_refl: "frame_but r s s" by (simp add: frame_but_def)

lemma wrapFunction_frame: "frame_ok s (snd (wrapFunction fid s))"
  by (auto simp: frame_ok_def wrapFunction_def eval_def eval_path_def buildJSWrapper_def Let_def
      split: option.splits prod.splits)

lemma splice_insert_other: "r' \<noteq> r \<Longrightarrow> splice_insert h r idx item r' = h r'"
  by (simp add: splice_insert_def Let_def split: option.splits cell.splits)

lemma setProperty_other: "r' \<noteq> r \<Longrightarrow> setProperty h r key v r' = h r'"
  by (simp add: setProperty_def split: option.splits cell.splits)

lemma frame_ok_but: "frame_ok s s' \<Longrightarrow> frame_but r s s'"
  by (simp add: frame_ok_def frame_but_def)

lemma frame_but_trans: "frame_but r s s1 \<Longrightarrow> frame_but r s1 s2 \<Longrightarrow> frame_but r s s2"
  by (auto simp: frame_but_def)

lemma toJS_frame:
  "frame_ok s (snd (toJS v s))"
  "frame_but r s (snd (JSArray_extend r xs s))"
  "frame_but r s (snd (JSObject_update r kvs s))"
proof (induction v s and r xs s and r kvs s rule: toJS_JSArray_extend_JSObject_update.induct)
  case (1 "value" s)
  show ?case
  proof (cases "is_proxy value")
    case True
    then show ?thesis by (simp add: toJS.simps frame_ok_refl)
  next
    case np: False
    show ?thesis
    proof (cases "QJSValue (engine_number s) value")
      case (Some j)
      with np show ?thesis by (simp add: toJS.simps frame_ok_refl)
    next
      case nq: None
      show ?thesis
      proof (cases "callable value")
        case (Some fid)
        with np nq show ?thesis by (simp add: toJS.simps wrapFunction_frame)
      next
        case nc: None
        show ?thesis
        proof (cases "as_sequence value")
          case (Some xs)
          obtain r s1 where na: "newArray s = (r, s1)" by (cases "newArray s")
          then have r: "r = next_ref s" "next_ref s1 = Suc (next_ref s)"
            "\<forall>r' < next_ref s. heap s1 r' = heap s r'"
            by (auto simp: newArray_def)
          from "1.IH"(2) [OF np nq nc Some refl na [symmetric]]
          have "frame_but r s1 (snd (JSArray_extend r xs s1))" .
          with r have "frame_ok s (snd (JSArray_extend r xs s1))"
            by (auto simp: frame_ok_def frame_but_def)
          with np nq nc Some na show ?thesis
            by (auto simp: toJS.simps split: prod.splits sum.splits)
        next
          case ns: None
          show ?thesis
          proof (cases "as_mapping value")
            case (Some kvs)
            obtain r s1 where na: "newObject s = (r, s1)" by (cases "newObject s")
            then have r: "r = next_ref s" "next_ref s1 = Suc (next_ref s)"
              "\<forall>r' < next_ref s. heap s1 r' = heap s r'"
              by (auto simp: newObject_def)
            from "1.IH"(1) [OF np nq nc ns Some refl na [symmetric]]
            have "frame_but r s1 (snd (JSObject_update r kvs s1))" .
            with r have "frame_ok s (snd (JSObject_update r kvs s1))"
              by (auto simp: frame_ok_def frame_but_def)
            with np nq nc ns Some na show ?thesis
              by (auto simp: toJS.simps split: prod.splits sum.splits)
          next
            case None
            with np nq nc ns show ?thesis
              by (auto simp: toJS.simps frame_ok_refl split: pyval.splits)
          qed
        qed
      qed
    qed
  qed
next
  case (2 r s)
  show ?case by (simp add: frame_but_refl)
next
  case (3 r v vs s)
  obtain res s1 where t: "toJS v s = (res, s1)" by (cases "toJS v s")
  from "3.IH"(1) [OF refl] t have f1: "frame_but r s s1" by (simp add: frame_ok_but)
  show ?case
  proof (cases res)
    case (Inl e)
    with t f1 show ?thesis by simp
  next
    case (Inr item)
    let ?s1 = "s1\<lparr>heap := splice_insert (heap s1) r (JSArray_len (heap s) r) item\<rparr>"
    have "frame_but r s1 ?s1" by (simp add: frame_but_def splice_insert_other)
    moreover from "3.IH"(2) [OF refl t [symmetric] Inr]
    have "frame_but r ?s1 (snd (JSArray_extend r vs ?s1))" .
    ultimately have "frame_but r s (snd (JSArray_extend r vs ?s1))"
      using f1 by (blast intro: frame_but_trans)
    with t Inr show ?thesis by (simp add: Let_def)
  qed
next
  case (4 r s)
  show ?case by (simp add: frame_but_refl)
next
  case (5 r kv kvs s)
  obtain res s1 where t: "toJS (snd kv) s = (res, s1)" by (cases "toJS (snd kv) s")
  from "5.IH"(1) t have f1: "frame_but r s s1" by (simp add: frame_ok_but)
  show ?case
  proof (cases res)
    case (Inl e)
    with t f1 show ?thesis by simp
  next
    case (Inr item)
    let ?s1 = "s1\<lparr>heap := setProperty (heap s1) r (fst kv) item\<rparr>"
    have "frame_but r s1 ?s1" by (simp add: frame_but_def setProperty_other)
    moreover from "5.IH"(2) [OF t [symmetric] Inr]
    have "frame_but r ?s1 (snd (JSObject_update r kvs ?s1))" .
    ultimately have "frame_but r s (snd (JSObject_update r kvs ?s1))"
      using f1 by (blast intro: frame_but_trans)
    with t Inr show ?thesis by simp
  qed
qed


lemma toJS_keeps:
  "toJS v s = (res, s1) \<Longrightarrow> r < next_ref s \<Longrightarrow> heap s1 r = heap s r \<and> r < next_ref s1"
  using toJS_frame(1) [of s v] by (auto simp: frame_ok_def)

lemma splice_insert_end:
  "h r = Some (ArrayCell ys) \<Longrightarrow>
   splice_insert h r (int (length ys)) item = h(r \<mapsto> ArrayCell (ys @ [item]))"
  by (simp add: splice_insert_def)

lemma extend_content:
  "JSArray_extend r xs s = (Inr u, s') \<Longrightarrow> heap s r = Some (ArrayCell ys) \<Longrightarrow> r < next_ref s \<Longrightarrow>
   \<exists>js. heap s' r = Some (ArrayCell (ys @ js)) \<and> list_all2 encodes xs js"
proof (induction xs arbitrary: s ys)
  case Nil
  then show ?case by simp
next
  case (Cons v vs)
  obtain res s1 where t: "toJS v s = (res, s1)" by (cases "toJS v s")
  with Cons.prems(1) obtain item where i: "res = Inr item"
    by (cases res) (auto simp: Let_def)
  from toJS_keeps [OF t Cons.prems(3)] Cons.prems(2)
  have k: "heap s1 r = Some (ArrayCell ys)" "r < next_ref s1" by simp_all
  let ?s1 = "s1\<lparr>heap := splice_insert (heap s1) r (JSArray_len (heap s) r) item\<rparr>"
  have len: "JSArray_len (heap s) r = int (length ys)"
    using Cons.prems(2) by (simp add: JSArray_len_def)
  have h1: "heap ?s1 r = Some (ArrayCell ((ys @ [item]) @ []))" "r < next_ref ?s1"
    using k by (simp_all add: len splice_insert_end)
  have e: "JSArray_extend r vs ?s1 = (Inr u, s')"
    using Cons.prems(1) t i by (simp add: Let_def)
  from Cons.IH [OF e] h1 obtain js where
    "heap s' r = Some (ArrayCell ((ys @ [item]) @ js))" "list_all2 encodes vs js" by auto
  moreover have "encodes v item" using t i by (auto simp: encodes_def)
  ultimately show ?case by (intro exI [of _ "item # js"]) simp
qed

lemma setProperty_new:
  "h r = Some (ObjectCell ps protos) \<Longrightarrow> key \<notin> fst ` set ps \<Longrightarrow>
   setProperty h r key v = h(r \<mapsto> ObjectCell (ps @ [(key, v)]) protos)"
  by (simp add: setProperty_def)

lemma update_content:
  "JSObject_update r kvs s = (Inr u, s') \<Longrightarrow> heap s r = Some (ObjectCell ps protos) \<Longrightarrow>
   r < next_ref s \<Longrightarrow> distinct (map fst kvs) \<Longrightarrow> fst ` set kvs \<inter> fst ` set ps = {} \<Longrightarrow>
   \<exists>js. heap s' r = Some (ObjectCell (ps @ zip (map fst kvs) js) protos) \<and>
        list_all2 encodes (map snd kvs) js"
proof (induction kvs arbitrary: s ps)
  case Nil
  then show ?case by simp
next
  case (Cons kv kvs)
  obtain res s1 where t: "toJS (snd kv) s = (res, s1)" by (cases "toJS (snd kv) s")
  with Cons.prems(1) obtain item where i: "res = Inr item"
    by (cases res) auto
  from toJS_keeps [OF t Cons.prems(3)] Cons.prems(2)
  have k: "heap s1 r = Some (ObjectCell ps protos)" "r < next_ref s1" by simp_all
  let ?s1 = "s1\<lparr>heap := setProperty (heap s1) r (fst kv) item\<rparr>"
  have nk: "fst kv \<notin> fst ` set ps" using Cons.prems(5) by auto
  have h1: "heap ?s1 r = Some (ObjectCell (ps @ [(fst kv, item)]) protos)" "r < next_ref ?s1"
    using k nk by (simp_all add: setProperty_new)
  have e: "JSObject_update r kvs ?s1 = (Inr u, s')"
    using Cons.prems(1) t i by simp
  have d: "distinct (map fst kvs)" "fst ` set kvs \<inter> fst ` set (ps @ [(fst kv, item)]) = {}"
    using Cons.prems(4,5) by auto
  from Cons.IH [OF e h1 d] obtain js where
    "heap s' r = Some (ObjectCell ((ps @ [(fst kv, item)]) @ zip (map fst kvs) js) protos)"
    "list_all2 encodes (map snd kvs) js" by auto
  moreover have "encodes (snd kv) item" using t i by (auto simp: encodes_def)
  ultimately show ?case by (intro exI [of _ "item # js"]) simp
qed


lemma toJS_sequence:
  assumes "\<not> is_proxy v" "QJSValue (engine_number s) v = None" "callable v = None"
    "as_sequence v = Some xs" "toJS v s = (Inr j, s')"
  shows "j = JSArray (next_ref s) \<and>
         (\<exists>js. heap s' (next_ref s) = Some (ArrayCell js) \<and> list_all2 encodes xs js)"
proof -
  let ?s1 = "snd (newArray s)"
  have na: "newArray s = (next_ref s, ?s1)" by (simp add: newArray_def)
  have h: "heap ?s1 (next_ref s) = Some (ArrayCell [])" "next_ref s < next_ref ?s1"
    by (simp_all add: newArray_def)
  from assms na obtain u where e: "JSArray_extend (next_ref s) xs ?s1 = (Inr u, s')"
    and j: "j = JSArray (next_ref s)"
    by (auto simp: toJS.simps split: prod.splits sum.splits)
  from extend_content [OF e h] j show ?thesis by simp
qed

lemma toJS_mapping:
  assumes "\<not> is_proxy v" "QJSValue (engine_number s) v = None" "callable v = None"
    "as_sequence v = None" "as_mapping v = Some kvs" "distinct (map fst kvs)" "toJS v s = (Inr j, s')"
  shows "j = JSObject (next_ref s) \<and>
         (\<exists>js. heap s' (next_ref s) = Some (ObjectCell (zip (map fst kvs) js) []) \<and>
               list_all2 encodes (map snd kvs) js)"
proof -
  let ?s1 = "snd (newObject s)"
  have na: "newObject s = (next_ref s, ?s1)" by (simp add: newObject_def)
  have h: "heap ?s1 (next_ref s) = Some (ObjectCell [] [])" "next_ref s < next_ref ?s1"
    by (simp_all add: newObject_def)
  from assms na obtain u where e: "JSObject_update (next_ref s) kvs ?s1 = (Inr u, s')"
    and j: "j = JSObject (next_ref s)"
    by (auto simp: toJS.simps split: prod.splits sum.splits)
  from update_content [OF e h assms(6)] j show ?thesis by simp
qed

text \<open>
  Claim C6, as amended. \<open>toJS\<close> converts a host value by the first case that applies:
  a proxy is unwrapped to its script value and nothing is encoded; null becomes script
  null; a value the engine's constructor takes (number, string, boolean) becomes that
  primitive; a callable takes the function-wrap path; a sequence, also one that is a
  mapping as well, becomes a new array holding an encoding of each item in order; a
  mapping that is not a sequence becomes a new object holding, under each key, an
  encoding of its value; a date/time becomes a script date of its ISO text; any other
  value raises the conversion error naming its type.
\<close>

theorem toJS_order:
  "(is_proxy v \<longrightarrow> toJS v s = (proxy_val v, s)) \<and>
   (v = PyNone \<longrightarrow> toJS v s = (Inr JSNull, s)) \<and>
   (\<forall>j. \<not> is_proxy v \<and> QJSValue (engine_number s) v = Some j \<longrightarrow> toJS v s = (Inr j, s)) \<and>
   (\<forall>fid. \<not> is_proxy v \<and> QJSValue (engine_number s) v = None \<and> callable v = Some fid \<longrightarrow>
      toJS v s = wrapFunction fid s) \<and>
   (\<forall>xs j s'. \<not> is_proxy v \<and> QJSValue (engine_number s) v = None \<and> callable v = None \<and>
      as_sequence v = Some xs \<and> toJS v s = (Inr j, s') \<longrightarrow>
      j = JSArray (next_ref s) \<and>
      (\<exists>js. heap s' (next_ref s) = Some (ArrayCell js) \<and> list_all2 encodes xs js)) \<and>
   (\<forall>kvs j s'. \<not> is_proxy v \<and> QJSValue (engine_number s) v = None \<and> callable v = None \<and>
      as_sequence v = None \<and> as_mapping v = Some kvs \<and> distinct (map fst kvs) \<and>
      toJS v s = (Inr j, s') \<longrightarrow>
      j = JSObject (next_ref s) \<and>
      (\<exists>js. heap s' (next_ref s) = Some (ObjectCell (zip (map fst kvs) js) []) \<and>
            list_all2 encodes (map snd kvs) js)) \<and>
   (\<forall>d. v = PyDateTime d \<longrightarrow> toJS v s = (Inr (JSDate d), s)) \<and>
   (\<not> is_proxy v \<and> QJSValue (engine_number s) v = None \<and> callable v = None \<and>
      as_sequence v = None \<and> as_mapping v = None \<and> (\<forall>d. v \<noteq> PyDateTime d) \<longrightarrow>
      toJS v s = (Inl (conversion_error v), s))"
proof -
  have a: "is_proxy v \<Longrightarrow> toJS v s = (proxy_val v, s)"
    by (simp add: toJS.simps)
  have b: "v = PyNone \<Longrightarrow> toJS v s = (Inr JSNull, s)"
    by (simp add: toJS.simps QJSValue_def)
  have c: "\<not> is_proxy v \<Longrightarrow> QJSValue (engine_number s) v = Some j \<Longrightarrow> toJS v s = (Inr j, s)" for j
    by (simp add: toJS.simps)
  have d: "\<not> is_proxy v \<Longrightarrow> QJSValue (engine_number s) v = None \<Longrightarrow> callable v = Some fid \<Longrightarrow>
      toJS v s = wrapFunction fid s" for fid
    by (simp add: toJS.simps)
  have g: "v = PyDateTime d \<Longrightarrow> toJS v s = (Inr (JSDate d), s)" for d
    by (simp add: toJS.simps QJSValue_def)
  have h: "\<not> is_proxy v \<Longrightarrow> QJSValue (engine_number s) v = None \<Longrightarrow> callable v = None \<Longrightarrow>
      as_sequence v = None \<Longrightarrow> as_mapping v = None \<Longrightarrow> (\<forall>d. v \<noteq> PyDateTime d) \<Longrightarrow>
      toJS v s = (Inl (conversion_error v), s)"
    by (cases v) (simp_all add: toJS.simps conversion_error_def)
  show ?thesis
    using a b c d g h toJS_sequence [of v s] toJS_mapping [of v s] by blast
qed

lemma toJS_small_list:
  "toJS (PyList [PyBool True, PyStr ''a'']) (new_evaluator num) =
     (Inr (JSArray 2),
      (new_evaluator num)\<lparr>heap := (heap (new_evaluator num))(2 \<mapsto> ArrayCell [JSBool True, JSString ''a'']),
                            next_ref := 3\<rparr>)"
  by (simp add: toJS.simps QJSValue_def newArray_def new_evaluator_def JSArray_len_def
      splice_insert_def Let_def)

lemma toJS_small_dict:
  "toJS (PyDict [(''a'', PyBool True)]) (new_evaluator num) =
     (Inr (JSObject 2),
      (new_evaluator num)\<lparr>heap := (heap (new_evaluator num))(2 \<mapsto> ObjectCell [(''a'', JSBool True)] []),
                            next_ref := 3\<rparr>)"
  by (simp add: toJS.simps QJSValue_def newObject_def new_evaluator_def setProperty_def)

theorem toJS_order_witness:
  "toJS (PyObjectProxy 1 None) (new_evaluator (\<lambda>i. Finite (of_int i))) =
     (Inr (JSObject 1), new_evaluator (\<lambda>i. Finite (of_int i))) \<and>
   toJS PyNone (new_evaluator (\<lambda>i. Finite (of_int i))) =
     (Inr JSNull, new_evaluator (\<lambda>i. Finite (of_int i))) \<and>
   toJS (PyStr ''ab'') (new_evaluator (\<lambda>i. Finite (of_int i))) =
     (Inr (JSString ''ab''), new_evaluator (\<lambda>i. Finite (of_int i))) \<and>
   toJS (PyCallable 7) (new_evaluator (\<lambda>i. Finite (of_int i))) =
     wrapFunction 7 (new_evaluator (\<lambda>i. Finite (of_int i))) \<and>
   (\<exists>js. heap (snd (toJS (PyList [PyBool True, PyStr ''a'']) (new_evaluator (\<lambda>i. Finite (of_int i))))) 2 =
           Some (ArrayCell js) \<and>
         list_all2 encodes [PyBool True, PyStr ''a''] js) \<and>
   (\<exists>js. heap (snd (toJS (PyDict [(''a'', PyBool True)]) (new_evaluator (\<lambda>i. Finite (of_int i))))) 2 =
           Some (ObjectCell (zip [''a''] js) []) \<and>
         list_all2 encodes [PyBool True] js) \<and>
   toJS (PyDateTime ''2017-03-01T12:00:00'') (new_evaluator (\<lambda>i. Finite (of_int i))) =
     (Inr (JSDate ''2017-03-01T12:00:00''), new_evaluator (\<lambda>i. Finite (of_int i))) \<and>
   toJS (PyObject ''Widget'' None None None) (new_evaluator (\<lambda>i. Finite (of_int i))) =
     (Inl (conversion_error (PyObject ''Widget'' None None None)), new_evaluator (\<lambda>i. Finite (of_int i)))"
proof -
  let ?E = "new_evaluator (\<lambda>i. Finite (of_int i))"
  have n: "next_ref ?E = 2" by (simp add: new_evaluator_def)
  from toJS_order [of "PyObjectProxy 1 None" ?E]
  have p: "toJS (PyObjectProxy 1 None) ?E = (Inr (JSObject 1), ?E)"
    by (simp add: proxy_val_def)
  from toJS_order [of PyNone ?E]
  have z: "toJS PyNone ?E = (Inr JSNull, ?E)" by simp
  from toJS_order [of "PyStr ''ab''" ?E]
  have b: "toJS (PyStr ''ab'') ?E = (Inr (JSString ''ab''), ?E)"
    by (simp add: QJSValue_def)
  from toJS_order [of "PyCallable 7" ?E]
  have f: "toJS (PyCallable 7) ?E = wrapFunction 7 ?E"
    by (simp add: QJSValue_def)
  have l: "\<not> is_proxy (PyList [PyBool True, PyStr ''a'']) \<and>
      QJSValue (engine_number ?E) (PyList [PyBool True, PyStr ''a'']) = None \<and>
      callable (PyList [PyBool True, PyStr ''a'']) = None \<and>
      as_sequence (PyList [PyBool True, PyStr ''a'']) = Some [PyBool True, PyStr ''a'']"
    by (simp add: QJSValue_def)
  from toJS_order [of "PyList [PyBool True, PyStr ''a'']" ?E] l toJS_small_list [of "\<lambda>i. Finite (of_int i)"] n
  have a: "\<exists>js. heap (snd (toJS (PyList [PyBool True, PyStr ''a'']) ?E)) 2 = Some (ArrayCell js) \<and>
      list_all2 encodes [PyBool True, PyStr ''a''] js"
    by (metis snd_conv)
  have m: "\<not> is_proxy (PyDict [(''a'', PyBool True)]) \<and>
      QJSValue (engine_number ?E) (PyDict [(''a'', PyBool True)]) = None \<and>
      callable (PyDict [(''a'', PyBool True)]) = None \<and>
      as_sequence (PyDict [(''a'', PyBool True)]) = None \<and>
      as_mapping (PyDict [(''a'', PyBool True)]) = Some [(''a'', PyBool True)] \<and>
      distinct (map fst [(''a'', PyBool True)])"
    by (simp add: QJSValue_def)
  have t: "toJS (PyDict [(''a'', PyBool True)]) ?E =
      (Inr (JSObject 2), snd (toJS (PyDict [(''a'', PyBool True)]) ?E))"
    by (simp add: toJS_small_dict)
  from toJS_order [of "PyDict [(''a'', PyBool True)]" ?E]
  have q: "\<forall>kvs j s'. \<not> is_proxy (PyDict [(''a'', PyBool True)]) \<and>
      QJSValue (engine_number ?E) (PyDict [(''a'', PyBool True)]) = None \<and>
      callable (PyDict [(''a'', PyBool True)]) = None \<and>
      as_sequence (PyDict [(''a'', PyBool True)]) = None \<and>
      as_mapping (PyDict [(''a'', PyBool True)]) = Some kvs \<and> distinct (map fst kvs) \<and>
      toJS (PyDict [(''a'', PyBool True)]) ?E = (Inr j, s') \<longrightarrow>
      j = JSObject (next_ref ?E) \<and>
      (\<exists>js. heap s' (next_ref ?E) = Some (ObjectCell (zip (map fst kvs) js) []) \<and>
            list_all2 encodes (map snd kvs) js)"
    by blast
  from q [rule_format, of "[(''a'', PyBool True)]" "JSObject 2" "snd (toJS (PyDict [(''a'', PyBool True)]) ?E)"] m t
  have "\<exists>js. heap (snd (toJS (PyDict [(''a'', PyBool True)]) ?E)) (next_ref ?E) =
          Some (ObjectCell (zip (map fst [(''a'', PyBool True)]) js) []) \<and>
        list_all2 encodes (map snd [(''a'', PyBool True)]) js"
    by blast
  then have d: "\<exists>js. heap (snd (toJS (PyDict [(''a'', PyBool True)]) ?E)) 2 = Some (ObjectCell (zip [''a''] js) []) \<and>
      list_all2 encodes [PyBool True] js"
    by (simp add: n)
  from toJS_order [of "PyDateTime ''2017-03-01T12:00:00''" ?E]
  have g: "toJS (PyDateTime ''2017-03-01T12:00:00'') ?E = (Inr (JSDate ''2017-03-01T12:00:00''), ?E)"
    by simp
  from toJS_order [of "PyObject ''Widget'' None None None" ?E]
  have c: "toJS (PyObject ''Widget'' None None None) ?E =
      (Inl (conversion_error (PyObject ''Widget'' None None None)), ?E)"
    by (simp add: QJSValue_def)
  from p z b f a d g c show ?thesis by blast
qed

text \<open>
  The claim as stated fails for a sequence that is also a mapping: the sequence test
  comes first and does not look at whether the value is a mapping, so the value becomes
  an array of its items, not an object of its entries.
\<close>

theorem toJS_both_becomes_array:
  "as_mapping both_sequence_and_mapping = Some [(''a'', PyInt 1)] \<and>
   fst (toJS both_sequence_and_mapping (new_evaluator (\<lambda>i. Finite (of_int i)))) = Inr (JSArray 2) \<and>
   heap (snd (toJS both_sequence_and_mapping (new_evaluator (\<lambda>i. Finite (of_int i))))) 2 =
     Some (ArrayCell [JSNumber (Finite 1)])"
  by (simp add: both_sequence_and_mapping_def toJS.simps QJSValue_def newArray_def new_evaluator_def
      JSArray_len_def splice_insert_def Let_def)

section \<open>Snapshots are detached\<close>

lemma proxy_free_PyList [simp]: "proxy_free (PyList xs) \<longleftrightarrow> (\<forall>x \<in> set xs. proxy_free x)"
  by (auto simp: list_all_iff)

lemma proxy_free_PyDict [simp]: "proxy_free (PyDict kvs) \<longleftrightarrow> (\<forall>kv \<in> set kvs. proxy_free (snd kv))"
  by (auto simp: list_all_iff)

declare proxy_free.simps(10) [simp del] proxy_free.simps(11) [simp del]

lemma each_all:
  "each f xs = Inr ys \<Longrightarrow> \<forall>x y. f x = Inr y \<longrightarrow> P y \<Longrightarrow> \<forall>y \<in> set ys. P y"
  by (induction xs arbitrary: ys) (auto split: sum.splits)

lemma each_length: "each f xs = Inr ys \<Longrightarrow> length ys = length xs"
  by (induction xs arbitrary: ys) (auto split: sum.splits)

lemma keyed_free:
  "\<forall>x y. copy x = Inr y \<longrightarrow> proxy_free y \<Longrightarrow> \<forall>kv c. keyed copy kv = Inr c \<longrightarrow> proxy_free (snd c)"
  by (auto simp: keyed_def split: sum.splits)

lemma then_copy_free:
  "\<forall>x y. copy x = Inr y \<longrightarrow> proxy_free y \<Longrightarrow> then_copy copy got = Inr c \<Longrightarrow> proxy_free c"
  by (auto simp: then_copy_def split: sum.splits)

lemma deepcopy_proxy_free:
  "deepcopy st cs h n v = Inr b \<Longrightarrow> proxy_free b"
proof (induction n arbitrary: v b)
  case 0
  then show ?case by simp
next
  case (Suc n)
  have ih: "\<forall>x y. deepcopy st cs h n x = Inr y \<longrightarrow> proxy_free y"
    using Suc.IH by blast
  note kf = keyed_free [OF ih]
  show ?case
  proof (cases v)
    case (PyArrayProxy r)
    with Suc.prems obtain ys where
      e: "each (\<lambda>i. then_copy (deepcopy st cs h n) (JSArray_getitem st cs h r i))
            (map int [0 ..< nat (JSArray_len h r)]) = Inr ys" and b: "b = PyList ys"
      by (auto split: sum.splits)
    have "\<forall>y \<in> set ys. proxy_free y"
      by (rule each_all [OF e]) (auto dest: then_copy_free [OF ih])
    with b show ?thesis by simp
  next
    case (PyObjectProxy r inst)
    with Suc.prems obtain kvs where
      e: "each (\<lambda>key. case then_copy (deepcopy st cs h n) (JSObject_getitem st cs h r key) of
                          Inl e \<Rightarrow> Inl e | Inr c \<Rightarrow> Inr (key, c))
            (JSObject_iter h r) = Inr kvs" and b: "b = PyDict kvs"
      by (auto split: sum.splits)
    have "\<forall>kv \<in> set kvs. proxy_free (snd kv)"
      by (rule each_all [OF e]) (auto dest: then_copy_free [OF ih] split: sum.splits)
    with b show ?thesis by simp
  next
    case (PyList xs)
    with Suc.prems obtain ys where e: "each (deepcopy st cs h n) xs = Inr ys" and b: "b = PyList ys"
      by (auto split: sum.splits)
    from each_all [OF e ih] b show ?thesis by simp
  next
    case (PyDict kvs)
    with Suc.prems obtain ys where e: "each (keyed (deepcopy st cs h n)) kvs = Inr ys" and b: "b = PyDict ys"
      by (auto split: sum.splits)
    from each_all [OF e kf] b show ?thesis by simp
  next
    case (PyException e)
    with Suc.prems obtain old tb where
      o: "each (deepcopy st cs h n) (case exc_oldTraceback e of None \<Rightarrow> [] | Some tb \<Rightarrow> tb) = Inr old"
      and t: "each (deepcopy st cs h n) (exc_tb e) = Inr tb"
      and b: "b = PyException (Exc (exc_class e) (exc_message e) (exc_name e)
                 (case exc_oldTraceback e of None \<Rightarrow> None | Some x \<Rightarrow> Some old) tb)"
      by (auto split: sum.splits)
    from each_all [OF o ih] each_all [OF t ih] b show ?thesis
      by (auto simp: list_all_iff split: option.splits)
  next
    case (PyObject t c sq mp)
    with Suc.prems obtain ys zs where
      o: "each (deepcopy st cs h n) (case sq of None \<Rightarrow> [] | Some xs \<Rightarrow> xs) = Inr ys"
      and z: "each (keyed (deepcopy st cs h n)) (case mp of None \<Rightarrow> [] | Some kvs \<Rightarrow> kvs) = Inr zs"
      and b: "b = PyObject t c (case sq of None \<Rightarrow> None | Some x \<Rightarrow> Some ys)
                               (case mp of None \<Rightarrow> None | Some x \<Rightarrow> Some zs)"
      by (auto split: sum.splits)
    from each_all [OF o ih] each_all [OF z kf] b show ?thesis
      by (auto simp: list_all_iff split: option.splits)
  qed (use Suc.prems in \<open>auto split: sum.splits\<close>)
qed

lemma py_index_in_set: "py_index xs i = Inr x \<Longrightarrow> x \<in> set xs"
  by (auto simp: py_index_def split: if_splits)

lemma getitem_free:
  "proxy_free c \<Longrightarrow> py_getitem s c k = Inr x \<Longrightarrow> proxy_free x"
  by (cases c; cases k)
    (force simp: py_getitem_def dest: py_index_in_set map_of_SomeD split: option.splits)+

lemma getitem_indep:
  "proxy_free c \<Longrightarrow> py_getitem s c k = py_getitem s' c k"
  by (cases c; cases k) (auto simp: py_getitem_def)

lemma setitem_state:
  "proxy_free c \<Longrightarrow> snd (py_setitem c k v s) = s"
  by (cases c; cases k) (auto simp: py_setitem_def split: sum.splits)

lemma set_path_state:
  "proxy_free c \<Longrightarrow> snd (py_set_path c path v s) = s"
proof (induction c path v s rule: py_set_path.induct)
  case (3 c k k' ks v s)
  show ?case
  proof (cases "py_getitem s c k")
    case (Inl e)
    then show ?thesis by simp
  next
    case (Inr inner)
    with 3 have "snd (py_set_path inner (k' # ks) v s) = s"
      by (auto dest: getitem_free)
    with Inr show ?thesis by (auto split: prod.splits sum.splits)
  qed
qed (simp_all add: setitem_state)

lemma get_path_indep:
  "proxy_free c \<Longrightarrow> py_get_path s c path = py_get_path s' c path"
proof (induction path arbitrary: c)
  case Nil
  then show ?case by simp
next
  case (Cons k ks)
  from Cons.prems have g: "py_getitem s c k = py_getitem s' c k" by (rule getitem_indep)
  show ?case
  proof (cases "py_getitem s' c k")
    case (Inl e)
    with g show ?thesis by simp
  next
    case (Inr inner)
    with Cons.prems have "proxy_free inner" by (auto dest: getitem_free)
    from Cons.IH [OF this] g Inr show ?thesis by simp
  qed
qed

text \<open>
  Claim C8. When \<open>deepcopy\<close> of a proxy \<open>a\<close> returns \<open>b\<close>, \<open>b\<close> is a host list (for
  an array proxy) or a host dict (for an object proxy) with no proxy anywhere inside
  it, nested proxies having been copied in turn. An assignment into \<open>b\<close>, at any
  depth, leaves the evaluator's state, and so the script value under \<open>a\<close>, as it was;
  and what is read from \<open>b\<close>, at any depth, is the same in every evaluator state, so
  no change of the script value under \<open>a\<close> changes \<open>b\<close>.
\<close>

theorem deepcopy_detached:
  assumes "is_proxy a" and "snapshot n s0 a = Inr b"
  shows "proxy_free b \<and>
         ((\<exists>r. a = PyArrayProxy r) \<longrightarrow> (\<exists>xs. b = PyList xs)) \<and>
         ((\<exists>r inst. a = PyObjectProxy r inst) \<longrightarrow> (\<exists>kvs. b = PyDict kvs)) \<and>
         (\<forall>path v s. snd (py_set_path b path v s) = s) \<and>
         (\<forall>path s s'. py_get_path s b path = py_get_path s' b path)"
proof -
  from assms(2) have f: "proxy_free b"
    unfolding snapshot_def by (rule deepcopy_proxy_free)
  from assms(2) obtain m where n: "n = Suc m"
    by (cases n) (simp_all add: snapshot_def)
  have l: "(\<exists>r. a = PyArrayProxy r) \<longrightarrow> (\<exists>xs. b = PyList xs)"
    using assms(2) n by (auto simp: snapshot_def split: sum.splits)
  have d: "(\<exists>r inst. a = PyObjectProxy r inst) \<longrightarrow> (\<exists>kvs. b = PyDict kvs)"
    using assms(2) n by (auto simp: snapshot_def split: sum.splits)
  from f l d show ?thesis
    by (simp add: set_path_state get_path_indep [of b])
qed

lemma sample_snapshot:
  "snapshot 3 evaluator_with_array (PyArrayProxy 2) = Inr (PyList [PyDict [(''key'', PyInt 1)]])"
  by (simp add: snapshot_def eval_nat_numeral evaluator_with_array_def new_evaluator_def
      JSArray_len_def JSArray_getitem_def JSArray_normalize_def JSArray_get_def array_property_def
      then_copy_def JSObject_iter_def own_props_def JSObject_getitem_def hasProperty_def
      hasOwnProperty_def proto_chain_def JSObject_get_def object_property_def
      buildNumber_integral [of 1, simplified])

lemma cyclic_snapshot:
  "snapshot n evaluator_with_array (PyArrayProxy 4) = Inl (mk_exc RuntimeError ''maximum recursion depth exceeded'')"
proof (induction n)
  case 0
  show ?case by (simp add: snapshot_def)
next
  case (Suc n)
  have g: "JSArray_getitem (pythonExceptionStore evaluator_with_array) (codeStore evaluator_with_array)
      (heap evaluator_with_array) 4 0 = Inr (PyArrayProxy 4)"
    by (simp add: evaluator_with_array_def JSArray_getitem_def JSArray_normalize_def JSArray_len_def
        JSArray_get_def array_property_def)
  have len: "JSArray_len (heap evaluator_with_array) 4 = 1"
    by (simp add: evaluator_with_array_def JSArray_len_def)
  from Suc show ?case
    by (simp add: snapshot_def len g then_copy_def)
qed

theorem deepcopy_detached_witness:
  "snapshot 3 evaluator_with_array (PyArrayProxy 2) = Inr (PyList [PyDict [(''key'', PyInt 1)]]) \<and>
   py_set_path (PyList [PyDict [(''key'', PyInt 1)]]) [PyInt 0, PyStr ''key''] (PyInt 2) evaluator_with_array =
     (Inr (PyList [PyDict [(''key'', PyInt 2)]]), evaluator_with_array) \<and>
   py_get_path evaluator_with_array (PyArrayProxy 2) [PyInt 0, PyStr ''key''] = Inr (PyInt 1) \<and>
   py_get_path (snd (py_set_path (PyArrayProxy 2) [PyInt 0, PyStr ''key''] (PyInt 5) evaluator_with_array))
     (PyList [PyDict [(''key'', PyInt 1)]]) [PyInt 0, PyStr ''key''] = Inr (PyInt 1)"
proof -
  have p: "is_proxy (PyArrayProxy 2)" by simp
  note t = deepcopy_detached [OF p sample_snapshot]
  have a: "fst (py_set_path (PyList [PyDict [(''key'', PyInt 1)]]) [PyInt 0, PyStr ''key''] (PyInt 2) evaluator_with_array) =
      Inr (PyList [PyDict [(''key'', PyInt 2)]])"
    by (simp add: py_getitem_def py_index_def py_setitem_def dict_set_def put_back_def list_set_def)
  from t have b: "snd (py_set_path (PyList [PyDict [(''key'', PyInt 1)]]) [PyInt 0, PyStr ''key''] (PyInt 2) evaluator_with_array) =
      evaluator_with_array" by blast
  have c: "py_get_path evaluator_with_array (PyArrayProxy 2) [PyInt 0, PyStr ''key''] = Inr (PyInt 1)"
    by (simp add: py_getitem_def evaluator_with_array_def new_evaluator_def
      JSArray_len_def JSArray_getitem_def JSArray_normalize_def JSArray_get_def array_property_def
      JSObject_getitem_def hasProperty_def
      hasOwnProperty_def proto_chain_def own_props_def JSObject_get_def object_property_def
      buildNumber_integral [of 1, simplified])
  have d0: "py_get_path evaluator_with_array (PyList [PyDict [(''key'', PyInt 1)]]) [PyInt 0, PyStr ''key''] = Inr (PyInt 1)"
    by (simp add: py_getitem_def py_index_def)
  from t have "py_get_path (snd (py_set_path (PyArrayProxy 2) [PyInt 0, PyStr ''key''] (PyInt 5) evaluator_with_array))
     (PyList [PyDict [(''key'', PyInt 1)]]) [PyInt 0, PyStr ''key''] =
     py_get_path evaluator_with_array (PyList [PyDict [(''key'', PyInt 1)]]) [PyInt 0, PyStr ''key'']"
    by blast
  with d0 have d: "py_get_path (snd (py_set_path (PyArrayProxy 2) [PyInt 0, PyStr ''key''] (PyInt 5) evaluator_with_array))
     (PyList [PyDict [(''key'', PyInt 1)]]) [PyInt 0, PyStr ''key''] = Inr (PyInt 1)" by simp
  from sample_snapshot a b c d show ?thesis
    by (metis prod.collapse)
qed

lemma proxy_mutation_reaches_script:
  "py_get_path (snd (py_set_path (PyArrayProxy 2) [PyInt 0, PyStr ''key''] (PyInt 5) evaluator_with_array))
     (PyArrayProxy 2) [PyInt 0, PyStr ''key''] = Inr (PyInt 5)"
  by (simp add: py_getitem_def py_setitem_def evaluator_with_array_def new_evaluator_def
      JSArray_len_def JSArray_getitem_def JSArray_normalize_def JSArray_get_def array_property_def
      JSObject_getitem_def hasProperty_def toJS.simps QJSValue_def setProperty_def put_back_def
      hasOwnProperty_def proto_chain_def own_props_def JSObject_get_def object_property_def
      buildNumber_integral [of 5, simplified] buildNumber_integral [of 1, simplified])

end
